theory Spec2Isabelle
  imports Complex_Main
begin

section \<open>Python values and built-ins used by the strategy\<close>

text \<open>
  The strategy computes with Python floats (spreads, balances, volatility, timestamps) and
  with Decimal (prices, amounts). Both are modelled as \<^typ>\<open>real\<close>: the arithmetic is exact,
  and rounding, infinities and NaN are not represented. The conversions \<open>float(...)\<close> and
  \<open>Decimal(...)\<close> are therefore the identity. Where a property depends on rounding, the
  spread formula is modelled a second time in double arithmetic (section Double precision).
\<close>

datatype py_exception = KeyError string | IndexError | HostError string

text \<open>Python's two-argument \<open>max(a, b)\<close> keeps \<open>a\<close> unless \<open>b > a\<close>; \<open>min(a, b)\<close> keeps
  \<open>a\<close> unless \<open>b < a\<close>.\<close>

definition py_max :: "real \<Rightarrow> real \<Rightarrow> real" where
  "py_max a b = (if b > a then b else a)"

definition py_min :: "real \<Rightarrow> real \<Rightarrow> real" where
  "py_min a b = (if b < a then b else a)"

text \<open>\<open>str(n)\<close> for a non-negative integer, as the f-string \<open>f"NATR_{self.candles_length}"\<close>
  formats it.\<close>

definition digit_char :: "nat \<Rightarrow> char" where
  "digit_char d = ''0123456789'' ! d"

function str_nat :: "nat \<Rightarrow> string" where
  "str_nat n = (if n < 10 then [digit_char n] else str_nat (n div 10) @ [digit_char (n mod 10)])"
  by pat_completeness auto
termination
  by (relation "measure id") auto

declare str_nat.simps [simp del]

text \<open>\<open>s.split(sep)\<close> for a one-character separator, and list subscription \<open>xs[i]\<close> with a
  non-negative index, which raises IndexError out of range.\<close>

fun split_sep :: "char \<Rightarrow> string \<Rightarrow> string list" where
  "split_sep sep [] = [[]]"
| "split_sep sep (c # cs) =
     (if c = sep then [] # split_sep sep cs
      else (case split_sep sep cs of [] \<Rightarrow> [[c]] | p # ps \<Rightarrow> (c # p) # ps))"

definition subscript :: "'a list \<Rightarrow> nat \<Rightarrow> py_exception + 'a" where
  "subscript xs i = (if i < length xs then Inr (xs ! i) else Inl IndexError)"

section \<open>The host: candles feed, connectors, clock\<close>

text \<open>
  A pandas DataFrame, as far as the strategy reads it: the number of rows and the named
  columns. \<open>df.empty\<close> is true when either axis has length 0; \<open>series.iloc[-1]\<close> is the last
  value of a column and raises IndexError on an empty one.
\<close>

record dataframe =
  index_length :: nat
  columns :: "(string \<times> real list) list"

definition df_empty :: "dataframe \<Rightarrow> bool" where
  "df_empty df = (index_length df = 0 \<or> columns df = [])"

definition iloc_last :: "real list \<Rightarrow> py_exception + real" where
  "iloc_last series = (if series = [] then Inl IndexError else Inr (last series))"

datatype price_type = MidPrice | BestBid | BestAsk | LastTrade

datatype order_type = LIMIT | MARKET

datatype trade_type = BUY | SELL

record order_candidate =
  candidate_trading_pair :: string
  is_maker :: bool
  order_type :: order_type
  order_side :: trade_type
  amount :: real
  price :: real

record limit_order =
  order_trading_pair :: string
  client_order_id :: string

text \<open>
  A connector of the host runtime. Every call may raise; \<open>Inl\<close> is the exception.
  \<open>get_price pair is_buy\<close> is the best ask when \<open>is_buy\<close> and the best bid otherwise;
  \<open>adjust_candidates\<close> is the budget checker's method, called with \<open>all_or_none=True\<close>.
\<close>

record connector =
  get_balance :: "string \<Rightarrow> py_exception + real"
  get_price_by_type :: "string \<Rightarrow> price_type \<Rightarrow> py_exception + real"
  get_price :: "string \<Rightarrow> bool \<Rightarrow> py_exception + real"
  adjust_candidates :: "order_candidate list \<Rightarrow> py_exception + order_candidate list"

text \<open>
  What the host shows the strategy during one tick: the connectors by name, the candles
  frame after the indicator columns have been appended (the result of the candle feed and
  of the indicator library, or the exception they raise), the clock, and the active
  orders by connector name.
\<close>

record host =
  connectors :: "string \<rightharpoonup> connector"
  candles_df_with_features :: "py_exception + dataframe"
  current_timestamp :: real
  get_active_orders :: "string \<Rightarrow> limit_order list"

section \<open>The strategy object\<close>

record strategy =
  bid_spread :: real
  ask_spread :: real
  order_refresh_time :: real
  order_amount :: real
  create_timestamp :: real
  trading_pair :: string
  exchange :: string
  price_source :: price_type
  candles_length :: nat
  risk_aversion :: real
  min_spread :: real

text \<open>The class attributes of \<open>AdaptiveMarketMaker\<close>.\<close>

definition AdaptiveMarketMaker :: strategy where
  "AdaptiveMarketMaker =
     \<lparr> bid_spread = 0.001, ask_spread = 0.001, order_refresh_time = 15, order_amount = 1,
       create_timestamp = 0, trading_pair = ''SOL-USDT'', exchange = ''binance_paper_trade'',
       price_source = MidPrice, candles_length = 30, risk_aversion = 0.9,
       min_spread = 0.001 \<rparr>"

section \<open>Methods: results, state, effects\<close>

text \<open>
  What the strategy asks of the host, in the order it asks: log lines, cancellations and
  orders.
\<close>

datatype level = INFO | WARNING | ERROR

datatype message =
    Tick_refreshing_orders
  | No_candles_data
  | Calculated_spreads real real real real
  | Error_calculating_spreads py_exception
  | Creating_proposal real real real
  | Order_proposal_adjusted nat nat
  | Placed_order trade_type real real
  | Canceling_active_orders nat

datatype effect =
    Log level message
  | Cancel string string string
  | Buy string string real order_type real
  | Sell string string real order_type real

text \<open>
  A method call takes the strategy object and gives what it returned or raised, the
  strategy object afterwards, and the effects it had on the host.
\<close>

record 'a result =
  returned :: "py_exception + 'a"
  state :: strategy
  effects :: "effect list"

type_synonym 'a py_method = "strategy \<Rightarrow> 'a result"

definition mreturn :: "'a \<Rightarrow> 'a py_method" where
  "mreturn v self = \<lparr> returned = Inr v, state = self, effects = [] \<rparr>"

definition host_call :: "py_exception + 'a \<Rightarrow> 'a py_method" where
  "host_call r self = \<lparr> returned = r, state = self, effects = [] \<rparr>"

definition emit :: "effect \<Rightarrow> unit py_method" where
  "emit e self = \<lparr> returned = Inr (), state = self, effects = [e] \<rparr>"

definition get_self :: "strategy py_method" where
  "get_self self = \<lparr> returned = Inr self, state = self, effects = [] \<rparr>"

definition set_create_timestamp :: "real \<Rightarrow> unit py_method" where
  "set_create_timestamp t self =
     \<lparr> returned = Inr (), state = self\<lparr>create_timestamp := t\<rparr>, effects = [] \<rparr>"

text \<open>Sequencing: an exception in the first statement skips the rest.\<close>

definition mbind :: "'a py_method \<Rightarrow> ('a \<Rightarrow> 'b py_method) \<Rightarrow> 'b py_method" where
  "mbind m f self =
     (let r = m self in
      case returned r of
        Inl e \<Rightarrow> \<lparr> returned = Inl e, state = state r, effects = effects r \<rparr>
      | Inr v \<Rightarrow>
          (let r' = f v (state r) in
           \<lparr> returned = returned r', state = state r', effects = effects r @ effects r' \<rparr>))"

text \<open>\<open>try: m except Exception as e: h e\<close>.\<close>

definition try_except :: "'a py_method \<Rightarrow> (py_exception \<Rightarrow> 'a py_method) \<Rightarrow> 'a py_method" where
  "try_except m h self =
     (let r = m self in
      case returned r of
        Inr v \<Rightarrow> r
      | Inl e \<Rightarrow>
          (let r' = h e (state r) in
           \<lparr> returned = returned r', state = state r', effects = effects r @ effects r' \<rparr>))"

text \<open>\<open>for x in xs: body x\<close>.\<close>

fun for_each :: "'a list \<Rightarrow> ('a \<Rightarrow> unit py_method) \<Rightarrow> unit py_method" where
  "for_each [] body = mreturn ()"
| "for_each (x # xs) body = mbind (body x) (\<lambda>_. for_each xs body)"

definition log_with_clock :: "level \<Rightarrow> message \<Rightarrow> unit py_method" where
  "log_with_clock lvl msg = emit (Log lvl msg)"

text \<open>\<open>self.connectors[self.exchange]\<close>: a missing key raises KeyError.\<close>

definition connector_of :: "host \<Rightarrow> string \<Rightarrow> connector py_method" where
  "connector_of h name =
     host_call (case connectors h name of None \<Rightarrow> Inl (KeyError name) | Some c \<Rightarrow> Inr c)"

section \<open>Spread calculation\<close>

text \<open>
  \<open>get_candles_with_features\<close> reads the frame of the candle feed and has the indicator
  library append the RSI and NATR columns; the frame it returns is the host's.
\<close>

definition get_candles_with_features :: "host \<Rightarrow> dataframe py_method" where
  "get_candles_with_features h = host_call (candles_df_with_features h)"

text \<open>Lines 97 to 101 of \<open>calculate_spreads\<close>: the inventory ratio.\<close>

definition inventory_ratio_of :: "real \<Rightarrow> real \<Rightarrow> real" where
  "inventory_ratio_of base_balance quote_balance =
     (let total_value = base_balance + quote_balance in
      if total_value > 0 then base_balance / total_value else 0.5)"

text \<open>Lines 104 to 117 of \<open>calculate_spreads\<close>: base spread and inventory skew.\<close>

definition spread_formula :: "real \<Rightarrow> real \<Rightarrow> real \<Rightarrow> real \<times> real" where
  "spread_formula min_spread' volatility inventory_ratio =
     (let target_ratio = 0.5;
          inventory_deviation = inventory_ratio - target_ratio;
          base_spread = py_max min_spread' (volatility * 5)
      in
        if inventory_deviation > 0 then
          (py_max min_spread' (base_spread * (1 - inventory_deviation * 0.5)),
           py_max min_spread' (base_spread * (1 + inventory_deviation * 0.5)))
        else
          (let inventory_deviation = \<bar>inventory_deviation\<bar> in
           (py_max min_spread' (base_spread * (1 + inventory_deviation * 0.5)),
            py_max min_spread' (base_spread * (1 - inventory_deviation * 0.5)))))"

text \<open>
  The second arguments of the four \<open>max\<close> calls of lines 111 to 117: the skewed spreads
  before they are floored at \<open>min_spread\<close>.
\<close>

definition unfloored_spreads :: "real \<Rightarrow> real \<Rightarrow> real \<Rightarrow> real \<times> real" where
  "unfloored_spreads min_spread' volatility inventory_ratio =
     (let target_ratio = 0.5;
          inventory_deviation = inventory_ratio - target_ratio;
          base_spread = py_max min_spread' (volatility * 5)
      in
        if inventory_deviation > 0 then
          (base_spread * (1 - inventory_deviation * 0.5),
           base_spread * (1 + inventory_deviation * 0.5))
        else
          (let inventory_deviation = \<bar>inventory_deviation\<bar> in
           (base_spread * (1 + inventory_deviation * 0.5),
            base_spread * (1 - inventory_deviation * 0.5))))"

text \<open>The \<open>try\<close> block of \<open>calculate_spreads\<close> (lines 81 to 123).\<close>

definition calculate_spreads_try :: "host \<Rightarrow> (real \<times> real) py_method" where
  "calculate_spreads_try h =
     mbind (get_candles_with_features h) (\<lambda>candles_df.
       if df_empty candles_df then
         mbind (log_with_clock INFO No_candles_data) (\<lambda>_.
         mbind get_self (\<lambda>self.
         mreturn (bid_spread self, ask_spread self)))
       else
         mbind get_self (\<lambda>self.
         let natr_col = ''NATR_'' @ str_nat (candles_length self) in
         mbind (case map_of (columns candles_df) natr_col of
                  Some series \<Rightarrow> host_call (iloc_last series)
                | None \<Rightarrow> mreturn 0.001) (\<lambda>volatility.
         mbind (connector_of h (exchange self)) (\<lambda>c.
         mbind (host_call (subscript (split_sep CHR ''-'' (trading_pair self)) 0)) (\<lambda>base_asset.
         mbind (host_call (get_balance c base_asset)) (\<lambda>base_balance.
         mbind (connector_of h (exchange self)) (\<lambda>c.
         mbind (host_call (get_price_by_type c (trading_pair self) (price_source self))) (\<lambda>mid.
         mbind (connector_of h (exchange self)) (\<lambda>c.
         mbind (host_call (subscript (split_sep CHR ''-'' (trading_pair self)) 1)) (\<lambda>quote_asset.
         mbind (host_call (get_balance c quote_asset)) (\<lambda>quote_amount.
         let quote_balance = mid * quote_amount;
             inventory_ratio = inventory_ratio_of base_balance quote_balance;
             (bid_spread', ask_spread') =
                spread_formula (min_spread self) volatility inventory_ratio
         in
         mbind (log_with_clock INFO
                  (Calculated_spreads bid_spread' ask_spread' volatility inventory_ratio)) (\<lambda>_.
         mreturn (bid_spread', ask_spread')))))))))))))"

text \<open>The \<open>except Exception as e\<close> block of \<open>calculate_spreads\<close> (lines 125 to 127).\<close>

definition calculate_spreads_except :: "py_exception \<Rightarrow> (real \<times> real) py_method" where
  "calculate_spreads_except e =
     mbind (log_with_clock ERROR (Error_calculating_spreads e)) (\<lambda>_.
     mbind get_self (\<lambda>self.
     mreturn (bid_spread self, ask_spread self)))"

definition calculate_spreads :: "host \<Rightarrow> (real \<times> real) py_method" where
  "calculate_spreads h = try_except (calculate_spreads_try h) calculate_spreads_except"

section \<open>Quote construction and the tick cycle\<close>

definition create_proposal :: "host \<Rightarrow> order_candidate list py_method" where
  "create_proposal h =
     mbind get_self (\<lambda>self.
     mbind (connector_of h (exchange self)) (\<lambda>c.
     mbind (host_call (get_price_by_type c (trading_pair self) (price_source self))) (\<lambda>ref_price.
     mbind (calculate_spreads h) (\<lambda>(bid_spread', ask_spread').
     let buy_price = ref_price * (1 - bid_spread');
         sell_price = ref_price * (1 + ask_spread')
     in
     mbind get_self (\<lambda>self.
     mbind (connector_of h (exchange self)) (\<lambda>c.
     mbind (host_call (get_price c (trading_pair self) False)) (\<lambda>best_bid.
     mbind (connector_of h (exchange self)) (\<lambda>c.
     mbind (host_call (get_price c (trading_pair self) True)) (\<lambda>best_ask.
     let buy_price = py_min buy_price best_bid;
         sell_price = py_max sell_price best_ask;
         buy_order = \<lparr> candidate_trading_pair = trading_pair self, is_maker = True,
                       order_type = LIMIT, order_side = BUY,
                       amount = order_amount self, price = buy_price \<rparr>;
         sell_order = \<lparr> candidate_trading_pair = trading_pair self, is_maker = True,
                        order_type = LIMIT, order_side = SELL,
                        amount = order_amount self, price = sell_price \<rparr>
     in
     mbind (log_with_clock INFO (Creating_proposal ref_price buy_price sell_price)) (\<lambda>_.
     mreturn [buy_order, sell_order]))))))))))"

definition adjust_proposal_to_budget ::
  "host \<Rightarrow> order_candidate list \<Rightarrow> order_candidate list py_method" where
  "adjust_proposal_to_budget h proposal =
     mbind get_self (\<lambda>self.
     mbind (connector_of h (exchange self)) (\<lambda>c.
     mbind (host_call (adjust_candidates c proposal)) (\<lambda>proposal_adjusted.
     mbind (if length proposal_adjusted \<noteq> length proposal then
              log_with_clock WARNING
                (Order_proposal_adjusted (length proposal) (length proposal_adjusted))
            else mreturn ()) (\<lambda>_.
     mreturn proposal_adjusted))))"

text \<open>\<open>self.sell\<close>, \<open>self.buy\<close> and \<open>self.cancel\<close> are requests to the host.\<close>

definition place_order :: "string \<Rightarrow> order_candidate \<Rightarrow> unit py_method" where
  "place_order connector_name order =
     (if order_side order = SELL then
        emit (Sell connector_name (candidate_trading_pair order) (amount order)
                (order_type order) (price order))
      else if order_side order = BUY then
        emit (Buy connector_name (candidate_trading_pair order) (amount order)
                (order_type order) (price order))
      else mreturn ())"

definition place_orders :: "order_candidate list \<Rightarrow> unit py_method" where
  "place_orders proposal =
     for_each proposal (\<lambda>order.
       mbind get_self (\<lambda>self.
       mbind (place_order (exchange self) order) (\<lambda>_.
       log_with_clock INFO (Placed_order (order_side order) (amount order) (price order)))))"

definition cancel_all_orders :: "host \<Rightarrow> unit py_method" where
  "cancel_all_orders h =
     mbind get_self (\<lambda>self.
     let orders = get_active_orders h (exchange self) in
     if orders \<noteq> [] then
       mbind (log_with_clock INFO (Canceling_active_orders (length orders))) (\<lambda>_.
       for_each orders (\<lambda>order.
         mbind get_self (\<lambda>self.
         emit (Cancel (exchange self) (order_trading_pair order) (client_order_id order)))))
     else mreturn ())"

definition on_tick :: "host \<Rightarrow> unit py_method" where
  "on_tick h =
     mbind get_self (\<lambda>self.
     if create_timestamp self \<le> current_timestamp h then
       mbind (log_with_clock INFO Tick_refreshing_orders) (\<lambda>_.
       mbind (cancel_all_orders h) (\<lambda>_.
       mbind (create_proposal h) (\<lambda>proposal.
       mbind (adjust_proposal_to_budget h proposal) (\<lambda>proposal_adjusted.
       mbind (place_orders proposal_adjusted) (\<lambda>_.
       mbind get_self (\<lambda>self.
       set_create_timestamp (order_refresh_time self + current_timestamp h)))))))
     else mreturn ())"

text \<open>
  A run of the strategy: the host's clock calls \<open>on_tick\<close> once per tick, each time on the
  strategy object as the previous tick left it, also when that tick raised.
\<close>

fun run_ticks :: "strategy \<Rightarrow> host list \<Rightarrow> unit result list" where
  "run_ticks self [] = []"
| "run_ticks self (h # hs) = (let r = on_tick h self in r # run_ticks (state r) hs)"

section \<open>Submitted orders\<close>

text \<open>
  The orders a method call submitted to the host, and the prices of the buy and of the sell
  orders among its effects. \<open>order_request\<close> is the request \<open>place_order\<close> sends for a candidate.
\<close>

fun is_order :: "effect \<Rightarrow> bool" where
  "is_order (Buy n tp amt ty pr) = True"
| "is_order (Sell n tp amt ty pr) = True"
| "is_order (Log lvl msg) = False"
| "is_order (Cancel n tp oid) = False"

fun buy_prices :: "effect list \<Rightarrow> real list" where
  "buy_prices [] = []"
| "buy_prices (Buy n tp amt ty pr # es) = pr # buy_prices es"
| "buy_prices (e # es) = buy_prices es"

fun sell_prices :: "effect list \<Rightarrow> real list" where
  "sell_prices [] = []"
| "sell_prices (Sell n tp amt ty pr # es) = pr # sell_prices es"
| "sell_prices (e # es) = sell_prices es"

definition order_request :: "string \<Rightarrow> order_candidate \<Rightarrow> effect" where
  "order_request connector_name order =
     (if order_side order = SELL then
        Sell connector_name (candidate_trading_pair order) (amount order)
          (order_type order) (price order)
      else
        Buy connector_name (candidate_trading_pair order) (amount order)
          (order_type order) (price order))"

section \<open>Double precision\<close>

text \<open>
  The arithmetic of lines 104 to 117 as Python executes it: IEEE 754 binary64 with rounding
  to nearest, ties to even. A double is a pair \<open>(m, e)\<close> standing for \<open>m * 2 ^ e\<close>, with
  \<open>2 ^ 52 <= |m| < 2 ^ 53\<close>, or \<open>(0, 0)\<close> for zero. Every operation computes the exact result
  in integers and rounds it once. The exponent is unbounded: overflow to infinity, gradual
  underflow, NaN and the sign of zero are not represented.
\<close>

type_synonym double = "int \<times> int"

definition value_of :: "double \<Rightarrow> real" where
  "value_of x = (case x of (m, e) \<Rightarrow> of_int m * 2 powi e)"

text \<open>The number of binary digits of a positive integer.\<close>

function bit_length :: "int \<Rightarrow> nat" where
  "bit_length n = (if n \<le> 0 then 0 else Suc (bit_length (n div 2)))"
  by pat_completeness auto
termination
  by (relation "measure nat") auto

declare bit_length.simps [simp del]

text \<open>
  \<open>round_to_double m e\<close> is the double nearest to \<open>m * 2 ^ e\<close>: a significand of more than 53
  digits loses its low digits, rounding half to even.
\<close>

definition round_to_double :: "int \<Rightarrow> int \<Rightarrow> double" where
  "round_to_double m e =
     (if m = 0 then (0, 0)
      else
        let k = int (bit_length \<bar>m\<bar>) in
        if k \<le> 53 then (m * 2 ^ nat (53 - k), e - (53 - k))
        else
          let shift = nat (k - 53);
              q = \<bar>m\<bar> div 2 ^ shift;
              r = \<bar>m\<bar> mod 2 ^ shift;
              half = 2 ^ (shift - 1);
              n = (if r > half \<or> (r = half \<and> odd q) then q + 1 else q)
          in if n = 2 ^ 53 then (sgn m * 2 ^ 52, e + int shift + 1)
             else (sgn m * n, e + int shift))"

definition fadd :: "double \<Rightarrow> double \<Rightarrow> double" where
  "fadd x y =
     (case (x, y) of ((m1, e1), (m2, e2)) \<Rightarrow>
        let e = min e1 e2 in
        round_to_double (m1 * 2 ^ nat (e1 - e) + m2 * 2 ^ nat (e2 - e)) e)"

definition fneg :: "double \<Rightarrow> double" where
  "fneg x = (case x of (m, e) \<Rightarrow> (- m, e))"

definition fsub :: "double \<Rightarrow> double \<Rightarrow> double" where
  "fsub x y = fadd x (fneg y)"

definition fmul :: "double \<Rightarrow> double \<Rightarrow> double" where
  "fmul x y = (case (x, y) of ((m1, e1), (m2, e2)) \<Rightarrow> round_to_double (m1 * m2) (e1 + e2))"

definition fabs :: "double \<Rightarrow> double" where
  "fabs x = (case x of (m, e) \<Rightarrow> (\<bar>m\<bar>, e))"

definition fless :: "double \<Rightarrow> double \<Rightarrow> bool" where
  "fless x y =
     (case (x, y) of ((m1, e1), (m2, e2)) \<Rightarrow>
        let e = min e1 e2 in m1 * 2 ^ nat (e1 - e) < m2 * 2 ^ nat (e2 - e))"

text \<open>Python's \<open>max(a, b)\<close> on doubles: \<open>b\<close> when \<open>b > a\<close>, else \<open>a\<close>.\<close>

definition fmax :: "double \<Rightarrow> double \<Rightarrow> double" where
  "fmax a b = (if fless a b then b else a)"

text \<open>The literals \<open>0\<close>, \<open>0.5\<close>, \<open>1\<close> and \<open>5\<close>, all exact.\<close>

definition double_zero :: double where "double_zero = (0, 0)"

definition double_half :: double where "double_half = (4503599627370496, - 53)"

definition double_one :: double where "double_one = (4503599627370496, - 52)"

definition double_five :: double where "double_five = (5629499534213120, - 50)"

text \<open>Lines 104 to 117 of \<open>calculate_spreads\<close> in double arithmetic.\<close>

definition spread_formula_double :: "double \<Rightarrow> double \<Rightarrow> double \<Rightarrow> double \<times> double" where
  "spread_formula_double min_spread' volatility inventory_ratio =
     (let target_ratio = double_half;
          inventory_deviation = fsub inventory_ratio target_ratio;
          base_spread = fmax min_spread' (fmul volatility double_five)
      in
        if fless double_zero inventory_deviation then
          (fmax min_spread'
             (fmul base_spread (fsub double_one (fmul inventory_deviation double_half))),
           fmax min_spread'
             (fmul base_spread (fadd double_one (fmul inventory_deviation double_half))))
        else
          (let inventory_deviation = fabs inventory_deviation in
           (fmax min_spread'
              (fmul base_spread (fadd double_one (fmul inventory_deviation double_half))),
            fmax min_spread'
              (fmul base_spread (fsub double_one (fmul inventory_deviation double_half))))))"


text \<open>The specification's algorithm in double arithmetic.\<close>

definition reference_spreads_double :: "double \<Rightarrow> double \<Rightarrow> double \<Rightarrow> double \<times> double" where
  "reference_spreads_double min_spread' volatility inventory_ratio =
     (let volatility_multiplier' = double_five;
          skew_factor' = double_half;
          base_spread = fmax min_spread' (fmul volatility volatility_multiplier');
          deviation = fsub inventory_ratio double_half
      in
        if fless double_zero deviation then
          (fmax min_spread' (fmul base_spread (fsub double_one (fmul (fabs deviation) skew_factor'))),
           fmax min_spread' (fmul base_spread (fadd double_one (fmul (fabs deviation) skew_factor'))))
        else
          (fmax min_spread' (fmul base_spread (fadd double_one (fmul (fabs deviation) skew_factor'))),
           fmax min_spread' (fmul base_spread (fsub double_one (fmul (fabs deviation) skew_factor')))))"




definition double_0_25 :: double where "double_0_25 = (4503599627370496, - 54)"

section \<open>The specification's algorithm\<close>

text \<open>
  The spread calculator as the specification words it (section 4.1, steps 1 to 5), with its
  two named scalars. It is compared with \<open>spread_formula\<close> below.
\<close>

definition volatility_multiplier :: real where "volatility_multiplier = 5"

definition skew_factor :: real where "skew_factor = 0.5"

definition reference_spreads :: "real \<Rightarrow> real \<Rightarrow> real \<Rightarrow> real \<times> real" where
  "reference_spreads min_spread' volatility inventory_ratio =
     (let base_spread = max min_spread' (volatility * volatility_multiplier);
          deviation = inventory_ratio - 0.5
      in
        if deviation > 0 then
          (max min_spread' (base_spread * (1 - \<bar>deviation\<bar> * skew_factor)),
           max min_spread' (base_spread * (1 + \<bar>deviation\<bar> * skew_factor)))
        else
          (max min_spread' (base_spread * (1 + \<bar>deviation\<bar> * skew_factor)),
           max min_spread' (base_spread * (1 - \<bar>deviation\<bar> * skew_factor))))"

section \<open>Reachable strategy objects\<close>

text \<open>
  The strategy objects a run can reach from the class attributes: the host calls \<open>on_tick\<close>
  on every tick, and \<open>format_status\<close> calls \<open>calculate_spreads\<close>.
\<close>

inductive reachable :: "strategy \<Rightarrow> bool" where
  initial: "reachable AdaptiveMarketMaker"
| tick: "reachable s \<Longrightarrow> reachable (state (on_tick h s))"
| status: "reachable s \<Longrightarrow> reachable (state (calculate_spreads h s))"

section \<open>Example hosts\<close>

text \<open>
  A paper-trading connector holding 7 SOL and 3 USDT at a mid price of 1, with best bid 0.99
  and best ask 1.0005; the same connector before its order book exists; a candles frame with
  the NATR column (last value 0.002) and one too short for the indicator, so without it.
\<close>

definition paper_connector :: connector where
  "paper_connector =
     \<lparr> get_balance = (\<lambda>asset. if asset = ''SOL'' then Inr 7
                           else if asset = ''USDT'' then Inr 3
                           else Inl (HostError ''unknown asset'')),
       get_price_by_type = (\<lambda>pair source. Inr 1),
       get_price = (\<lambda>pair is_buy. if is_buy then Inr 1.0005 else Inr 0.99),
       adjust_candidates = (\<lambda>proposal. Inr proposal) \<rparr>"

definition connector_without_order_book :: connector where
  "connector_without_order_book =
     paper_connector
       \<lparr> get_price_by_type := (\<lambda>pair source. Inl (HostError ''No order book exists'')),
         get_price := (\<lambda>pair is_buy. Inl (HostError ''No order book exists'')) \<rparr>"

definition candles_with_natr :: dataframe where
  "candles_with_natr =
     \<lparr> index_length = 2,
       columns = [(''close'', [1, 1]), (''RSI_30'', [50, 50]), (''NATR_30'', [0.003, 0.002])] \<rparr>"

definition candles_without_natr :: dataframe where
  "candles_without_natr = \<lparr> index_length = 2, columns = [(''close'', [1, 1])] \<rparr>"

definition host_ready :: host where
  "host_ready =
     \<lparr> connectors = [''binance_paper_trade'' \<mapsto> paper_connector],
       candles_df_with_features = Inr candles_with_natr,
       current_timestamp = 100,
       get_active_orders = (\<lambda>name.
          [\<lparr> order_trading_pair = ''SOL-USDT'', client_order_id = ''b1'' \<rparr>]) \<rparr>"

definition host_short_history :: host where
  "host_short_history = host_ready \<lparr> candles_df_with_features := Inr candles_without_natr \<rparr>"

definition host_no_order_book :: host where
  "host_no_order_book =
     host_short_history
       \<lparr> connectors := [''binance_paper_trade'' \<mapsto> connector_without_order_book] \<rparr>"

text \<open>The ready host with 3 SOL and 3 USDT at a mid price of 1: a neutral inventory.\<close>

definition balanced_connector :: connector where
  "balanced_connector =
     paper_connector
       \<lparr> get_balance := (\<lambda>asset. if asset = ''SOL'' then Inr 3
                            else if asset = ''USDT'' then Inr 3
                            else Inl (HostError ''unknown asset'')) \<rparr>"

definition host_balanced :: host where
  "host_balanced = host_ready \<lparr> connectors := [''binance_paper_trade'' \<mapsto> balanced_connector] \<rparr>"

text \<open>Three ticks of the ready host, at 100, 105 and 115 seconds.\<close>

definition example_run :: "host list" where
  "example_run =
     [host_ready, host_ready \<lparr> current_timestamp := 105 \<rparr>,
      host_ready \<lparr> current_timestamp := 115 \<rparr>]"

section \<open>Laws of sequencing\<close>

lemma mbind_host_call:
  "mbind (host_call r) f s =
     (case r of Inl e \<Rightarrow> \<lparr> returned = Inl e, state = s, effects = [] \<rparr> | Inr v \<Rightarrow> f v s)"
  by (simp add: mbind_def host_call_def Let_def split: sum.splits)

lemma mbind_mreturn: "mbind (mreturn v) f s = f v s"
  by (simp add: mbind_def mreturn_def Let_def)

lemma mbind_get_self: "mbind get_self f s = f s s"
  by (simp add: mbind_def get_self_def Let_def)

lemma mbind_log:
  "mbind (log_with_clock lvl msg) f s =
     \<lparr> returned = returned (f () s), state = state (f () s),
       effects = Log lvl msg # effects (f () s) \<rparr>"
  by (simp add: mbind_def log_with_clock_def emit_def Let_def)

lemma mreturn_sel:
  "returned (mreturn v s) = Inr v" "state (mreturn v s) = s" "effects (mreturn v s) = []"
  by (simp_all add: mreturn_def)

lemma mbind_connector_of:
  "mbind (connector_of h name) f s =
     (case connectors h name of
        None \<Rightarrow> \<lparr> returned = Inl (KeyError name), state = s, effects = [] \<rparr>
      | Some c \<Rightarrow> f c s)"
  by (simp add: connector_of_def mbind_host_call split: option.splits)

lemmas method_simps =
  mbind_host_call mbind_mreturn mbind_get_self mbind_log mreturn_sel mbind_connector_of

lemma returned_mbind:
  "returned (mbind m f s) =
     (case returned (m s) of Inl e \<Rightarrow> Inl e | Inr v \<Rightarrow> returned (f v (state (m s))))"
  by (simp add: mbind_def Let_def split: sum.splits)

lemma state_mbind:
  "state (mbind m f s) =
     (case returned (m s) of Inl e \<Rightarrow> state (m s) | Inr v \<Rightarrow> state (f v (state (m s))))"
  by (simp add: mbind_def Let_def split: sum.splits)

lemma effects_mbind:
  "effects (mbind m f s) =
     (case returned (m s) of Inl e \<Rightarrow> effects (m s)
      | Inr v \<Rightarrow> effects (m s) @ effects (f v (state (m s))))"
  by (simp add: mbind_def Let_def split: sum.splits)

lemma mbind_assoc: "mbind (mbind m g) f = mbind m (\<lambda>x. mbind (g x) f)"
  by (rule ext) (simp add: mbind_def Let_def split: sum.splits)

lemma mbind_emit:
  "mbind (emit e) f s =
     \<lparr> returned = returned (f () s), state = state (f () s), effects = e # effects (f () s) \<rparr>"
  by (simp add: mbind_def emit_def Let_def)

lemma mbind_eval:
  "m s = \<lparr> returned = Inr v, state = s', effects = es \<rparr> \<Longrightarrow>
   mbind m f s =
     \<lparr> returned = returned (f v s'), state = state (f v s'), effects = es @ effects (f v s') \<rparr>"
  by (simp add: mbind_def Let_def)

lemma emit_sel:
  "returned (emit e s) = Inr ()" "state (emit e s) = s" "effects (emit e s) = [e]"
  by (simp_all add: emit_def)

lemma log_sel:
  "returned (log_with_clock l m s) = Inr ()" "state (log_with_clock l m s) = s"
  "effects (log_with_clock l m s) = [Log l m]"
  by (simp_all add: log_with_clock_def emit_def)

lemma set_create_timestamp_sel:
  "returned (set_create_timestamp t s) = Inr ()"
  "state (set_create_timestamp t s) = s\<lparr>create_timestamp := t\<rparr>"
  "effects (set_create_timestamp t s) = []"
  by (simp_all add: set_create_timestamp_def)

lemma for_each_state:
  assumes "\<And>x s. state (body x s) = s"
  shows "state (for_each xs body s) = s"
  by (induction xs arbitrary: s) (simp_all add: mreturn_sel state_mbind assms split: sum.splits)

lemma for_each_returned:
  assumes "\<And>x s. returned (body x s) = Inr ()"
  shows "returned (for_each xs body s) = Inr ()"
  by (induction xs arbitrary: s) (simp_all add: mreturn_sel returned_mbind assms)

section \<open>The spread formula\<close>

lemma py_max_max: "py_max a b = max a b"
  by (simp add: py_max_def max_def)

lemma py_min_min: "py_min a b = min a b"
  by (simp add: py_min_def min_def)

lemma spread_formula_reference: "spread_formula m v r = reference_spreads m v r"
  by (simp add: spread_formula_def reference_spreads_def py_max_max Let_def
      volatility_multiplier_def skew_factor_def)

lemma spread_formula_neutral: "spread_formula m v (1/2) = (max m (v * 5), max m (v * 5))"
  by (simp add: spread_formula_def py_max_max Let_def)

lemma spread_formula_floor:
  "spread_formula m v r = (py_max m (fst (unfloored_spreads m v r)), py_max m (snd (unfloored_spreads m v r)))"
  by (simp add: spread_formula_def unfloored_spreads_def Let_def)

lemma spread_formula_ge: "m \<le> fst (spread_formula m v r) \<and> m \<le> snd (spread_formula m v r)"
  by (simp add: spread_formula_floor py_max_max)

lemma unfloored_eq:
  "unfloored_spreads m v r = (max m (v * 5) * (1 - (r - 1/2) / 2), max m (v * 5) * (1 + (r - 1/2) / 2))"
proof -
  have skew: "(if d > 0 then (B * (1 - d * 0.5), B * (1 + d * 0.5))
               else (B * (1 + \<bar>d\<bar> * 0.5), B * (1 - \<bar>d\<bar> * 0.5)))
              = (B * (1 - d / 2), B * (1 + d / 2))" for B d :: real
    by (simp add: abs_if)
  show ?thesis
    unfolding unfloored_spreads_def Let_def py_max_max using skew [of "r - 0.5" "max m (v * 5)"] by simp
qed

lemma spread_formula_mono: 
  assumes "0 \<le> v" "0 < m" "1/2 \<le> r1" "r1 \<le> r2"
  shows "snd (spread_formula m v r1) \<le> snd (spread_formula m v r2) \<and> fst (spread_formula m v r2) \<le> fst (spread_formula m v r1)"
proof -
  have b: "0 \<le> max m (v * 5)" using assms by simp
  have "max m (v * 5) * (1 + (r1 - 1/2) / 2) \<le> max m (v * 5) * (1 + (r2 - 1/2) / 2)"
    using b assms by (intro mult_left_mono) simp_all
  moreover have "max m (v * 5) * (1 - (r2 - 1/2) / 2) \<le> max m (v * 5) * (1 - (r1 - 1/2) / 2)"
    using b assms by (intro mult_left_mono) simp_all
  ultimately show ?thesis
    by (simp add: spread_formula_floor unfloored_eq py_max_max max.coboundedI2)
qed

lemma unfloored_spreads_swap: "unfloored_spreads m v (1/2 + d) = prod.swap (unfloored_spreads m v (1/2 - d))"
  by (simp add: unfloored_eq)

lemma thousandth: "(v::real) * 1000 = 1 \<Longrightarrow> v = 1 / 1000"
  by simp

section \<open>Paths of \<open>calculate_spreads\<close>\<close>

lemma try_state: "state (calculate_spreads_try h s) = s"
  unfolding calculate_spreads_try_def get_candles_with_features_def
  by (simp add: method_simps Let_def split: sum.splits option.splits prod.splits)

lemma try_raise_effects: "returned (calculate_spreads_try h s) = Inl e \<Longrightarrow> effects (calculate_spreads_try h s) = []"
  unfolding calculate_spreads_try_def get_candles_with_features_def
  by (auto simp add: method_simps Let_def split: sum.splits option.splits prod.splits if_splits)

lemma calculate_spreads_state: "state (calculate_spreads h s) = s"
  by (simp add: calculate_spreads_def try_except_def calculate_spreads_except_def Let_def
      try_state method_simps split: sum.splits)

lemma calculate_spreads_raise:
  "returned (calculate_spreads_try h s) = Inl e \<Longrightarrow>
   calculate_spreads h s = \<lparr> returned = Inr (bid_spread s, ask_spread s), state = s,
     effects = [Log ERROR (Error_calculating_spreads e)] \<rparr>"
  by (simp add: calculate_spreads_def try_except_def calculate_spreads_except_def Let_def
      try_state try_raise_effects method_simps)

lemma calculate_spreads_no_raise:
  "returned (calculate_spreads_try h s) = Inr p \<Longrightarrow>
   calculate_spreads h s = calculate_spreads_try h s"
  by (simp add: calculate_spreads_def try_except_def Let_def)

lemma calculate_spreads_empty:
  "candles_df_with_features h = Inr df \<Longrightarrow> df_empty df \<Longrightarrow>
   calculate_spreads h s = \<lparr> returned = Inr (bid_spread s, ask_spread s), state = s,
     effects = [Log INFO No_candles_data] \<rparr>"
  by (simp add: calculate_spreads_def try_except_def Let_def calculate_spreads_try_def
      get_candles_with_features_def method_simps)

lemma calculate_spreads_risk:
  "calculate_spreads h (s\<lparr>risk_aversion := x\<rparr>) = (calculate_spreads h s)\<lparr>state := s\<lparr>risk_aversion := x\<rparr>\<rparr>"
  unfolding calculate_spreads_def try_except_def calculate_spreads_except_def 
    calculate_spreads_try_def get_candles_with_features_def
  by (simp add: method_simps Let_def split: sum.splits option.splits prod.splits)

lemma calculate_spreads_with_volatility:
  assumes "candles_df_with_features h = Inr df" "\<not> df_empty df"
    and "map_of (columns df) (''NATR_'' @ str_nat (candles_length s)) = Some series"
    and "series \<noteq> []"
    and "connectors h (exchange s) = Some c"
    and "split_sep CHR ''-'' (trading_pair s) = base_asset # quote_asset # rest"
    and "get_balance c base_asset = Inr b"
    and "get_price_by_type c (trading_pair s) (price_source s) = Inr p"
    and "get_balance c quote_asset = Inr q"
  shows "calculate_spreads h s =
     \<lparr> returned = Inr (spread_formula (min_spread s) (last series) (inventory_ratio_of b (p * q))),
       state = s,
       effects = [Log INFO (Calculated_spreads
          (fst (spread_formula (min_spread s) (last series) (inventory_ratio_of b (p * q))))
          (snd (spread_formula (min_spread s) (last series) (inventory_ratio_of b (p * q))))
          (last series) (inventory_ratio_of b (p * q)))] \<rparr>"
  using assms
  unfolding calculate_spreads_def try_except_def calculate_spreads_try_def
    get_candles_with_features_def
  by (simp add: method_simps subscript_def iloc_last_def Let_def split: prod.splits)

lemma calculate_spreads_without_column:
  assumes "candles_df_with_features h = Inr df" "\<not> df_empty df"
    and "map_of (columns df) (''NATR_'' @ str_nat (candles_length s)) = None"
    and "connectors h (exchange s) = Some c"
    and "split_sep CHR ''-'' (trading_pair s) = base_asset # quote_asset # rest"
    and "get_balance c base_asset = Inr b"
    and "get_price_by_type c (trading_pair s) (price_source s) = Inr p"
    and "get_balance c quote_asset = Inr q"
  shows "calculate_spreads h s =
     \<lparr> returned = Inr (spread_formula (min_spread s) 0.001 (inventory_ratio_of b (p * q))),
       state = s,
       effects = [Log INFO (Calculated_spreads
          (fst (spread_formula (min_spread s) 0.001 (inventory_ratio_of b (p * q))))
          (snd (spread_formula (min_spread s) 0.001 (inventory_ratio_of b (p * q))))
          0.001 (inventory_ratio_of b (p * q)))] \<rparr>"
  using assms
  unfolding calculate_spreads_def try_except_def calculate_spreads_try_def
    get_candles_with_features_def
  by (simp add: method_simps subscript_def Let_def split: prod.splits)

lemma calculated_log:
  assumes "effects (calculate_spreads h s) = [Log INFO (Calculated_spreads b a v r)]"
  shows "returned (calculate_spreads h s) = Inr (b, a) \<and> (b, a) = spread_formula (min_spread s) v r"
proof (cases "returned (calculate_spreads_try h s)")
  case (Inl e)
  from calculate_spreads_raise [OF this] assms show ?thesis by simp
next
  case (Inr p)
  from calculate_spreads_no_raise [OF this] assms
  have eq: "calculate_spreads h s = calculate_spreads_try h s"
    and "effects (calculate_spreads_try h s) = [Log INFO (Calculated_spreads b a v r)]"
    by simp_all
  then have "returned (calculate_spreads_try h s) = Inr (b, a) \<and>
    (b, a) = spread_formula (min_spread s) v r"
    unfolding calculate_spreads_try_def get_candles_with_features_def
    by (auto simp add: method_simps Let_def dest!: thousandth
        split: sum.splits option.splits prod.splits if_splits)
  with eq show ?thesis by simp
qed

section \<open>Frames and the gate of \<open>on_tick\<close>\<close>

lemma place_order_state: "state (place_order n order s) = s"
  by (simp add: place_order_def emit_sel mreturn_sel)

lemma place_orders_state: "state (place_orders proposal s) = s"
  unfolding place_orders_def
  by (rule for_each_state) (simp add: method_simps state_mbind place_order_state log_sel split: sum.splits)

lemma cancel_all_orders_state: "state (cancel_all_orders h s) = s"
  unfolding cancel_all_orders_def
  by (simp add: method_simps Let_def for_each_state emit_sel)

lemma cancel_all_orders_returned: "returned (cancel_all_orders h s) = Inr ()"
  unfolding cancel_all_orders_def
  by (simp add: method_simps Let_def for_each_returned emit_sel)

lemma adjust_proposal_to_budget_state: "state (adjust_proposal_to_budget h proposal s) = s"
  unfolding adjust_proposal_to_budget_def
  by (simp add: method_simps split: sum.splits option.splits)

lemma create_proposal_state: "state (create_proposal h s) = s"
  unfolding create_proposal_def
  by (simp add: method_simps state_mbind calculate_spreads_state Let_def
       split: sum.splits option.splits prod.splits)

lemma create_proposal_prices:
  assumes "connectors h (exchange s) = Some c"
    and "get_price_by_type c (trading_pair s) (price_source s) = Inr P"
    and "returned (calculate_spreads h s) = Inr (b, a)"
    and "get_price c (trading_pair s) False = Inr B"
    and "get_price c (trading_pair s) True = Inr A"
  shows "returned (create_proposal h s) =
     Inr [\<lparr> candidate_trading_pair = trading_pair s, is_maker = True, order_type = LIMIT,
             order_side = BUY, amount = order_amount s, price = min (P * (1 - b)) B \<rparr>,
          \<lparr> candidate_trading_pair = trading_pair s, is_maker = True, order_type = LIMIT,
             order_side = SELL, amount = order_amount s, price = max (P * (1 + a)) A \<rparr>]"
  using assms unfolding create_proposal_def
  by (simp add: method_simps returned_mbind state_mbind calculate_spreads_state Let_def
      py_min_min py_max_max)

lemma on_tick_closed:
  "current_timestamp h < create_timestamp s \<Longrightarrow>
   on_tick h s = \<lparr> returned = Inr (), state = s, effects = [] \<rparr>"
  by (simp add: on_tick_def method_simps mreturn_def)

lemma on_tick_open_effects:
  "create_timestamp s \<le> current_timestamp h \<Longrightarrow>
   \<exists>rest. effects (on_tick h s) = Log INFO Tick_refreshing_orders # rest"
  by (simp add: on_tick_def method_simps)

lemma on_tick_open_state:
  "create_timestamp s \<le> current_timestamp h \<Longrightarrow>
   state (on_tick h s) =
     (case returned (on_tick h s) of
        Inl e \<Rightarrow> s
      | Inr u \<Rightarrow> s\<lparr>create_timestamp := order_refresh_time s + current_timestamp h\<rparr>)"
  by (simp add: on_tick_def method_simps returned_mbind state_mbind cancel_all_orders_state
      cancel_all_orders_returned create_proposal_state adjust_proposal_to_budget_state
      place_orders_state set_create_timestamp_sel split: sum.splits)

lemma on_tick_effects_iff:
  "effects (on_tick h s) \<noteq> [] \<longleftrightarrow> create_timestamp s \<le> current_timestamp h"
proof (cases "create_timestamp s \<le> current_timestamp h")
  case True
  with on_tick_open_effects [OF True] show ?thesis by auto
next
  case False
  then show ?thesis by (simp add: on_tick_closed)
qed

lemma on_tick_state_cases:
  "state (on_tick h s) = s \<or>
   (create_timestamp s \<le> current_timestamp h \<and> returned (on_tick h s) = Inr () \<and>
    state (on_tick h s) = s\<lparr>create_timestamp := order_refresh_time s + current_timestamp h\<rparr>)"
proof (cases "create_timestamp s \<le> current_timestamp h")
  case True
  from on_tick_open_state [OF True] show ?thesis using True
    by (cases "returned (on_tick h s)") simp_all
next
  case False
  then show ?thesis by (simp add: on_tick_closed)
qed

lemma on_tick_refresh_time: "order_refresh_time (state (on_tick h s)) = order_refresh_time s"
  using on_tick_state_cases [of h s] by auto

lemma on_tick_create_timestamp_mono:
  "0 \<le> order_refresh_time s \<Longrightarrow> create_timestamp s \<le> create_timestamp (state (on_tick h s))"
  using on_tick_state_cases [of h s] by auto

lemma length_run_ticks: "length (run_ticks s hs) = length hs"
  by (induction hs arbitrary: s) (simp_all add: Let_def)

lemma run_ticks_gate:
  "0 \<le> order_refresh_time s \<Longrightarrow> j < length hs \<Longrightarrow> effects (run_ticks s hs ! j) \<noteq> [] \<Longrightarrow>
   create_timestamp s \<le> current_timestamp (hs ! j)"
proof (induction hs arbitrary: s j)
  case Nil
  then show ?case by simp
next
  case (Cons h hs)
  show ?case
  proof (cases j)
    case 0
    with Cons.prems show ?thesis by (simp add: Let_def on_tick_effects_iff)
  next
    case (Suc k)
    with Cons.prems have "create_timestamp (state (on_tick h s)) \<le> current_timestamp (hs ! k)"
      by (intro Cons.IH) (simp_all add: Let_def on_tick_refresh_time)
    moreover have "create_timestamp s \<le> create_timestamp (state (on_tick h s))"
      using Cons.prems(1) by (rule on_tick_create_timestamp_mono)
    ultimately show ?thesis using Suc by simp
  qed
qed

lemma run_ticks_spacing:
  "0 \<le> order_refresh_time s \<Longrightarrow> i < j \<Longrightarrow> j < length hs \<Longrightarrow>
   returned (run_ticks s hs ! i) = Inr () \<Longrightarrow> effects (run_ticks s hs ! i) \<noteq> [] \<Longrightarrow>
   effects (run_ticks s hs ! j) \<noteq> [] \<Longrightarrow>
   current_timestamp (hs ! i) + order_refresh_time s \<le> current_timestamp (hs ! j)"
proof (induction hs arbitrary: s i j)
  case Nil
  then show ?case by simp
next
  case (Cons h hs)
  from Cons.prems(2) obtain k where j: "j = Suc k" by (cases j) auto
  show ?case
  proof (cases i)
    case 0
    with Cons.prems have fin: "returned (on_tick h s) = Inr ()" and "effects (on_tick h s) \<noteq> []"
      by (simp_all add: Let_def)
    then have op: "create_timestamp s \<le> current_timestamp h" by (simp add: on_tick_effects_iff)
    from on_tick_open_state [OF op] fin
    have st: "state (on_tick h s) = s\<lparr>create_timestamp := order_refresh_time s + current_timestamp h\<rparr>"
      by simp
    from Cons.prems j have "create_timestamp (state (on_tick h s)) \<le> current_timestamp (hs ! k)"
      by (intro run_ticks_gate) (simp_all add: Let_def on_tick_refresh_time)
    with st 0 j show ?thesis by simp
  next
    case (Suc i')
    with Cons.prems j
    have "current_timestamp (hs ! i') + order_refresh_time (state (on_tick h s))
            \<le> current_timestamp (hs ! k)"
      by (intro Cons.IH) (simp_all add: Let_def on_tick_refresh_time)
    with Suc j show ?thesis by (simp add: on_tick_refresh_time)
  qed
qed

section \<open>The example hosts, evaluated\<close>

lemma str_nat_30: "str_nat 30 = ''30''"
  by (simp add: str_nat.simps digit_char_def)

lemma natr_col_class: "''NATR_'' @ str_nat (candles_length AdaptiveMarketMaker) = ''NATR_30''"
  by (simp add: AdaptiveMarketMaker_def str_nat_30)

lemma split_class: "split_sep CHR ''-'' (trading_pair AdaptiveMarketMaker) = [''SOL'', ''USDT'']"
  by (simp add: AdaptiveMarketMaker_def)

lemma class_fields:
  "bid_spread AdaptiveMarketMaker = 1 / 1000"
  "ask_spread AdaptiveMarketMaker = 1 / 1000"
  "order_refresh_time AdaptiveMarketMaker = 15"
  "order_amount AdaptiveMarketMaker = 1"
  "create_timestamp AdaptiveMarketMaker = 0"
  "trading_pair AdaptiveMarketMaker = ''SOL-USDT''"
  "exchange AdaptiveMarketMaker = ''binance_paper_trade''"
  "price_source AdaptiveMarketMaker = MidPrice"
  "candles_length AdaptiveMarketMaker = 30"
  "min_spread AdaptiveMarketMaker = 1 / 1000"
  by (simp_all add: AdaptiveMarketMaker_def)

lemma host_ready_fields:
  "connectors host_ready ''binance_paper_trade'' = Some paper_connector"
  "candles_df_with_features host_ready = Inr candles_with_natr"
  "current_timestamp host_ready = 100"
  "get_active_orders host_ready name =
     [\<lparr> order_trading_pair = ''SOL-USDT'', client_order_id = ''b1'' \<rparr>]"
  by (simp_all add: host_ready_def)

lemma spread_formula_example: "spread_formula (1 / 1000) (1 / 500) (7 / 10) = (9 / 1000, 11 / 1000)"
  by (simp add: spread_formula_def py_max_def Let_def)

lemma calculate_spreads_host_ready:
  "calculate_spreads host_ready AdaptiveMarketMaker =
     \<lparr> returned = Inr (0.009, 0.011), state = AdaptiveMarketMaker,
       effects = [Log INFO (Calculated_spreads 0.009 0.011 0.002 0.7)] \<rparr>"
proof -
  have r: "inventory_ratio_of 7 (1 * 3) = 0.7"
    by (simp add: inventory_ratio_of_def Let_def)
  have "calculate_spreads host_ready AdaptiveMarketMaker =
     \<lparr> returned = Inr (spread_formula (min_spread AdaptiveMarketMaker) (last [0.003, 0.002]) (inventory_ratio_of 7 (1 * 3))),
       state = AdaptiveMarketMaker,
       effects = [Log INFO (Calculated_spreads
          (fst (spread_formula (min_spread AdaptiveMarketMaker) (last [0.003, 0.002]) (inventory_ratio_of 7 (1 * 3))))
          (snd (spread_formula (min_spread AdaptiveMarketMaker) (last [0.003, 0.002]) (inventory_ratio_of 7 (1 * 3))))
          (last [0.003, 0.002]) (inventory_ratio_of 7 (1 * 3)))] \<rparr>"
    by (rule calculate_spreads_with_volatility [where df = candles_with_natr and c = paper_connector
          and base_asset = "''SOL''" and quote_asset = "''USDT''" and rest = "[]"])
       (simp_all add: host_ready_def candles_with_natr_def df_empty_def natr_col_class split_class
          paper_connector_def, simp_all add: AdaptiveMarketMaker_def str_nat_30)
  then show ?thesis
    unfolding r by (simp add: AdaptiveMarketMaker_def spread_formula_example)
qed

lemma calculate_spreads_host_no_order_book:
  "calculate_spreads host_no_order_book AdaptiveMarketMaker =
     \<lparr> returned = Inr (0.001, 0.001), state = AdaptiveMarketMaker,
       effects = [Log ERROR (Error_calculating_spreads (HostError ''No order book exists''))] \<rparr>"
proof -
  have "returned (calculate_spreads_try host_no_order_book AdaptiveMarketMaker) =
          Inl (HostError ''No order book exists'')"
    unfolding calculate_spreads_try_def get_candles_with_features_def
    by (simp add: method_simps Let_def host_no_order_book_def host_short_history_def host_ready_def
        candles_without_natr_def df_empty_def natr_col_class split_class subscript_def
        connector_without_order_book_def paper_connector_def,
        simp add: AdaptiveMarketMaker_def str_nat_30)
  from calculate_spreads_raise [OF this] show ?thesis
    by (simp add: AdaptiveMarketMaker_def)
qed

lemma create_proposal_host_ready:
  "create_proposal host_ready AdaptiveMarketMaker =
     \<lparr> returned = Inr
         [\<lparr> candidate_trading_pair = ''SOL-USDT'', is_maker = True, order_type = LIMIT,
             order_side = BUY, amount = 1, price = 0.99 \<rparr>,
          \<lparr> candidate_trading_pair = ''SOL-USDT'', is_maker = True, order_type = LIMIT,
             order_side = SELL, amount = 1, price = 1.011 \<rparr>],
       state = AdaptiveMarketMaker,
       effects = [Log INFO (Calculated_spreads 0.009 0.011 0.002 0.7),
                  Log INFO (Creating_proposal 1 0.99 1.011)] \<rparr>"
  unfolding create_proposal_def
  by (simp add: method_simps mbind_eval [where m = "calculate_spreads host_ready" and s = AdaptiveMarketMaker, OF calculate_spreads_host_ready] class_fields
      host_ready_fields paper_connector_def py_min_def py_max_def Let_def)

lemma cancel_all_orders_host_ready:
  "cancel_all_orders host_ready AdaptiveMarketMaker =
      \<lparr> returned = Inr (), state = AdaptiveMarketMaker,
        effects = [Log INFO (Canceling_active_orders 1),
                   Cancel ''binance_paper_trade'' ''SOL-USDT'' ''b1''] \<rparr>"
  unfolding cancel_all_orders_def
  by (simp add: method_simps mbind_assoc mbind_emit class_fields host_ready_fields Let_def)

lemma adjust_host_ready:
  "adjust_proposal_to_budget host_ready p AdaptiveMarketMaker =
      \<lparr> returned = Inr p, state = AdaptiveMarketMaker, effects = [] \<rparr>"
  unfolding adjust_proposal_to_budget_def
  by (simp add: method_simps class_fields host_ready_fields paper_connector_def mreturn_def)

lemma place_orders_buy_sell:
  "place_orders
         [\<lparr> candidate_trading_pair = tp, is_maker = mk, order_type = ty,
             order_side = BUY, amount = a, price = p1 \<rparr>,
          \<lparr> candidate_trading_pair = tp, is_maker = mk, order_type = ty,
             order_side = SELL, amount = a, price = p2 \<rparr>] s =
      \<lparr> returned = Inr (), state = s,
        effects = [Buy (exchange s) tp a ty p1,
          Log INFO (Placed_order BUY a p1),
          Sell (exchange s) tp a ty p2,
          Log INFO (Placed_order SELL a p2)] \<rparr>"
  unfolding place_orders_def place_order_def
  by (simp add: method_simps mbind_assoc mbind_emit log_sel)

lemma on_tick_host_ready:
  "on_tick host_ready AdaptiveMarketMaker =
     \<lparr> returned = Inr (),
       state = AdaptiveMarketMaker\<lparr>create_timestamp := 115\<rparr>,
       effects =
         [Log INFO Tick_refreshing_orders,
          Log INFO (Canceling_active_orders 1),
          Cancel ''binance_paper_trade'' ''SOL-USDT'' ''b1'',
          Log INFO (Calculated_spreads 0.009 0.011 0.002 0.7),
          Log INFO (Creating_proposal 1 0.99 1.011),
          Buy ''binance_paper_trade'' ''SOL-USDT'' 1 LIMIT 0.99,
          Log INFO (Placed_order BUY 1 0.99),
          Sell ''binance_paper_trade'' ''SOL-USDT'' 1 LIMIT 1.011,
          Log INFO (Placed_order SELL 1 1.011)] \<rparr>"
proof -
  note step1 = mbind_eval [where m = "cancel_all_orders host_ready" and s = AdaptiveMarketMaker,
      OF cancel_all_orders_host_ready]
  note step2 = mbind_eval [where m = "create_proposal host_ready" and s = AdaptiveMarketMaker,
      OF create_proposal_host_ready]
  have step3: "mbind (adjust_proposal_to_budget host_ready p) f AdaptiveMarketMaker =
      f p AdaptiveMarketMaker" for p and f :: "order_candidate list \<Rightarrow> unit py_method"
    by (simp add: mbind_eval [where m = "adjust_proposal_to_budget host_ready p"
          and s = AdaptiveMarketMaker, OF adjust_host_ready])
  have step4: "mbind (place_orders
         [\<lparr> candidate_trading_pair = tp, is_maker = mk, order_type = ty,
             order_side = BUY, amount = a, price = p1 \<rparr>,
          \<lparr> candidate_trading_pair = tp, is_maker = mk, order_type = ty,
             order_side = SELL, amount = a, price = p2 \<rparr>]) f s =
      \<lparr> returned = returned (f () s), state = state (f () s),
        effects = [Buy (exchange s) tp a ty p1,
          Log INFO (Placed_order BUY a p1),
          Sell (exchange s) tp a ty p2,
          Log INFO (Placed_order SELL a p2)] @ effects (f () s) \<rparr>"
    for f :: "unit \<Rightarrow> unit py_method" and tp mk ty a p1 p2 s
    by (rule mbind_eval, rule place_orders_buy_sell)
  show ?thesis
    unfolding on_tick_def
    by (simp add: mbind_get_self mbind_log class_fields host_ready_fields
        step1 step2 step3 step4 set_create_timestamp_sel)
qed

lemma calculate_spreads_returns: "\<exists>p. returned (calculate_spreads h s) = Inr p"
proof (cases "returned (calculate_spreads_try h s)")
  case (Inl e)
  from calculate_spreads_raise [OF this] show ?thesis by simp
next
  case (Inr p)
  from calculate_spreads_no_raise [OF this] Inr show ?thesis by simp
qed

lemma try_candles_raise:
  "candles_df_with_features h = Inl e \<Longrightarrow> returned (calculate_spreads_try h s) = Inl e"
  by (simp add: calculate_spreads_try_def get_candles_with_features_def method_simps)

lemma reachable_class_spreads:
  "reachable s \<Longrightarrow> bid_spread s = 1 / 1000 \<and> ask_spread s = 1 / 1000 \<and> min_spread s = 1 / 1000"
proof (induction rule: reachable.induct)
  case initial
  show ?case by (simp add: class_fields)
next
  case (tick s h)
  with on_tick_state_cases [of h s] show ?case by auto
next
  case (status s h)
  then show ?case by (simp add: calculate_spreads_state)
qed

lemma spread_formula_fixed_volatility_above_floor:
  "spread_formula (1 / 1000) (1 / 1000) r \<noteq> (1 / 1000, 1 / 1000)"
proof (cases "1 / 2 \<le> r")
  case True
  then have "(1 / 200 :: real) \<le> 1 / 200 * (1 + (r - 1 / 2) / 2)" by simp
  then have "1 / 200 \<le> snd (spread_formula (1 / 1000) (1 / 1000) r)"
    by (simp add: spread_formula_floor unfloored_eq py_max_max le_max_iff_disj)
  then have "snd (spread_formula (1 / 1000) (1 / 1000) r) \<noteq> 1 / 1000" by auto
  then show ?thesis by auto
next
  case False
  then have "(1 / 200 :: real) \<le> 1 / 200 * (1 - (r - 1 / 2) / 2)" by simp
  then have "1 / 200 \<le> fst (spread_formula (1 / 1000) (1 / 1000) r)"
    by (simp add: spread_formula_floor unfloored_eq py_max_max le_max_iff_disj)
  then have "fst (spread_formula (1 / 1000) (1 / 1000) r) \<noteq> 1 / 1000" by auto
  then show ?thesis by auto
qed

lemma host_short_history_fields:
  "connectors host_short_history ''binance_paper_trade'' = Some paper_connector"
  "candles_df_with_features host_short_history = Inr candles_without_natr"
  "current_timestamp host_short_history = 100"
  by (simp_all add: host_short_history_def host_ready_def)

lemma host_no_order_book_fields:
  "connectors host_no_order_book ''binance_paper_trade'' = Some connector_without_order_book"
  "candles_df_with_features host_no_order_book = Inr candles_without_natr"
  "current_timestamp host_no_order_book = 100"
  "get_active_orders host_no_order_book name =
     [\<lparr> order_trading_pair = ''SOL-USDT'', client_order_id = ''b1'' \<rparr>]"
  by (simp_all add: host_no_order_book_def host_short_history_def host_ready_def)

lemma candles_without_natr_facts:
  "\<not> df_empty candles_without_natr"
  "map_of (columns candles_without_natr) ''NATR_30'' = None"
  by (simp_all add: candles_without_natr_def df_empty_def)

lemma spread_formula_short_history:
  "spread_formula (1 / 1000) (1 / 1000) (7 / 10) = (9 / 2000, 11 / 2000)"
  by (simp add: spread_formula_def py_max_def Let_def)

lemma inventory_ratio_example: "inventory_ratio_of 7 (1 * 3) = 7 / 10"
  by (simp add: inventory_ratio_of_def Let_def)

lemma calculate_spreads_host_short_history:
  "calculate_spreads host_short_history AdaptiveMarketMaker =
     \<lparr> returned = Inr (9 / 2000, 11 / 2000), state = AdaptiveMarketMaker,
       effects = [Log INFO (Calculated_spreads (9 / 2000) (11 / 2000) (1 / 1000) (7 / 10))] \<rparr>"
proof -
  have "calculate_spreads host_short_history AdaptiveMarketMaker =
     \<lparr> returned = Inr (spread_formula (min_spread AdaptiveMarketMaker) 0.001 (inventory_ratio_of 7 (1 * 3))),
       state = AdaptiveMarketMaker,
       effects = [Log INFO (Calculated_spreads
          (fst (spread_formula (min_spread AdaptiveMarketMaker) 0.001 (inventory_ratio_of 7 (1 * 3))))
          (snd (spread_formula (min_spread AdaptiveMarketMaker) 0.001 (inventory_ratio_of 7 (1 * 3))))
          0.001 (inventory_ratio_of 7 (1 * 3)))] \<rparr>"
    by (rule calculate_spreads_without_column [where df = candles_without_natr
          and c = paper_connector and base_asset = "''SOL''" and quote_asset = "''USDT''"
          and rest = "[]"])
       (simp_all add: class_fields host_short_history_fields candles_without_natr_facts
          str_nat_30 paper_connector_def split_class [unfolded class_fields])
  then show ?thesis
    unfolding inventory_ratio_example
    by (simp add: class_fields spread_formula_short_history)
qed

lemma calculate_spreads_try_no_order_book:
  assumes "exchange s = ''binance_paper_trade''" and "trading_pair s = ''SOL-USDT''"
  shows "returned (calculate_spreads_try host_no_order_book s) =
           Inl (HostError ''No order book exists'')"
  unfolding calculate_spreads_try_def get_candles_with_features_def
  by (simp add: method_simps Let_def host_no_order_book_fields assms subscript_def
      candles_without_natr_facts candles_without_natr_def df_empty_def
      connector_without_order_book_def paper_connector_def split: option.splits)

lemma on_tick_host_no_order_book:
  assumes "exchange s = ''binance_paper_trade''" and "trading_pair s = ''SOL-USDT''"
    and "create_timestamp s \<le> current_timestamp h"
    and "connectors h = connectors host_no_order_book"
    and "get_active_orders h = get_active_orders host_no_order_book"
  shows "on_tick h s =
     \<lparr> returned = Inl (HostError ''No order book exists''), state = s,
       effects = [Log INFO Tick_refreshing_orders,
                  Log INFO (Canceling_active_orders 1),
                  Cancel ''binance_paper_trade'' ''SOL-USDT'' ''b1''] \<rparr>"
proof -
  have cancel: "cancel_all_orders h s =
      \<lparr> returned = Inr (), state = s,
        effects = [Log INFO (Canceling_active_orders 1),
                   Cancel ''binance_paper_trade'' ''SOL-USDT'' ''b1''] \<rparr>"
    unfolding cancel_all_orders_def
    by (simp add: method_simps mbind_assoc mbind_emit assms host_no_order_book_fields Let_def)
  have proposal: "create_proposal h s =
      \<lparr> returned = Inl (HostError ''No order book exists''), state = s, effects = [] \<rparr>"
    unfolding create_proposal_def
    by (simp add: method_simps assms host_no_order_book_fields
        connector_without_order_book_def paper_connector_def)
  show ?thesis
    unfolding on_tick_def
    by (simp add: mbind_get_self mbind_log assms(3)
        mbind_eval [where m = "cancel_all_orders h" and s = s, OF cancel]
        mbind_def [of "create_proposal h"] proposal Let_def)
qed

lemma run_ticks_example:
  "run_ticks AdaptiveMarketMaker example_run =
     [on_tick host_ready AdaptiveMarketMaker,
      \<lparr> returned = Inr (), state = AdaptiveMarketMaker\<lparr>create_timestamp := 115\<rparr>,
        effects = [] \<rparr>,
      on_tick (host_ready\<lparr>current_timestamp := 115\<rparr>)
        (AdaptiveMarketMaker\<lparr>create_timestamp := 115\<rparr>)]"
proof -
  have closed: "on_tick (host_ready\<lparr>current_timestamp := 105\<rparr>)
      (AdaptiveMarketMaker\<lparr>create_timestamp := 115\<rparr>) =
      \<lparr> returned = Inr (), state = AdaptiveMarketMaker\<lparr>create_timestamp := 115\<rparr>,
        effects = [] \<rparr>"
    by (rule on_tick_closed) simp
  show ?thesis
    by (simp add: example_run_def Let_def on_tick_host_ready closed)
qed

section \<open>Double arithmetic\<close>

lemma fless_zero_iff: "fless double_zero (m, e) \<longleftrightarrow> 0 < m"
  by (simp add: fless_def double_zero_def Let_def zero_less_mult_iff)

lemma fabs_of_positive: "fless double_zero x \<Longrightarrow> fabs x = x"
  by (cases x) (simp add: fless_zero_iff fabs_def)



lemma spread_formula_double_reference:
  "spread_formula_double m v r = reference_spreads_double m v r"
  by (simp add: spread_formula_double_def reference_spreads_double_def Let_def fabs_of_positive)




lemma literal_values:
  "value_of double_half = 1 / 2" "value_of double_one = 1" "value_of double_five = 5"
  "value_of double_0_25 = 1 / 4" "value_of double_zero = 0"
  by (simp_all add: value_of_def double_half_def double_one_def double_five_def
      double_0_25_def double_zero_def power_int_minus)









section \<open>The orders \<open>on_tick\<close> submits\<close>

lemma buy_prices_filter: "buy_prices (filter is_order es) = buy_prices es"
  by (induction es rule: buy_prices.induct) simp_all

lemma sell_prices_filter: "sell_prices (filter is_order es) = sell_prices es"
  by (induction es rule: sell_prices.induct) simp_all

lemma buy_prices_requests:
  "buy_prices (map (order_request n) os) = map price (filter (\<lambda>x. order_side x \<noteq> SELL) os)"
  by (induction os) (simp_all add: order_request_def)

lemma sell_prices_requests:
  "sell_prices (map (order_request n) os) = map price (filter (\<lambda>x. order_side x = SELL) os)"
  by (induction os) (simp_all add: order_request_def)

lemma place_order_request:
  "place_order n order s = \<lparr> returned = Inr (), state = s, effects = [order_request n order] \<rparr>"
  by (cases "order_side order") (simp_all add: place_order_def order_request_def emit_def)

lemma place_orders_effects:
  "place_orders os s =
     \<lparr> returned = Inr (), state = s,
       effects = concat (map (\<lambda>order. [order_request (exchange s) order,
          Log INFO (Placed_order (order_side order) (amount order) (price order))]) os) \<rparr>"
proof (induction os)
  case Nil
  show ?case by (simp add: place_orders_def mreturn_def)
next
  case (Cons order os)
  then show ?case
    unfolding place_orders_def
    by (simp add: mbind_def get_self_def place_order_request log_with_clock_def emit_def Let_def)
qed

lemma place_orders_submits:
  "filter is_order (effects (place_orders os s)) = map (order_request (exchange s)) os"
  unfolding place_orders_effects
  by (induction os) (simp_all add: order_request_def)

lemma for_each_no_orders:
  assumes "\<And>x s. filter is_order (effects (body x s)) = []"
  shows "filter is_order (effects (for_each xs body s)) = []"
  by (induction xs arbitrary: s)
     (simp_all add: mreturn_sel effects_mbind assms split: sum.splits)

lemma cancel_all_orders_no_orders: "filter is_order (effects (cancel_all_orders h s)) = []"
  unfolding cancel_all_orders_def
  by (simp add: method_simps Let_def for_each_no_orders emit_sel)

lemma calculate_spreads_no_orders: "filter is_order (effects (calculate_spreads h s)) = []"
proof (cases "returned (calculate_spreads_try h s)")
  case (Inl e)
  from calculate_spreads_raise [OF this] show ?thesis by simp
next
  case (Inr p)
  have "filter is_order (effects (calculate_spreads_try h s)) = []"
    unfolding calculate_spreads_try_def get_candles_with_features_def
    by (simp add: method_simps Let_def split: sum.splits option.splits prod.splits)
  with calculate_spreads_no_raise [OF Inr] show ?thesis by simp
qed

lemma create_proposal_no_orders: "filter is_order (effects (create_proposal h s)) = []"
  unfolding create_proposal_def
  by (simp add: method_simps effects_mbind calculate_spreads_state calculate_spreads_no_orders
      Let_def split: sum.splits option.splits prod.splits)

lemma adjust_proposal_to_budget_result:
  assumes "connectors h (exchange s) = Some c" and "adjust_candidates c proposal = Inr adjusted"
  shows "returned (adjust_proposal_to_budget h proposal s) = Inr adjusted"
    and "filter is_order (effects (adjust_proposal_to_budget h proposal s)) = []"
  using assms unfolding adjust_proposal_to_budget_def
  by (simp_all add: method_simps)

lemma on_tick_submits:
  assumes "create_timestamp s \<le> current_timestamp h"
    and "returned (create_proposal h s) = Inr proposal"
    and "connectors h (exchange s) = Some c"
    and "adjust_candidates c proposal = Inr adjusted"
  shows "returned (on_tick h s) = Inr ()"
    and "filter is_order (effects (on_tick h s)) = map (order_request (exchange s)) adjusted"
  using assms adjust_proposal_to_budget_result [OF assms(3,4)]
  unfolding on_tick_def
  by (simp_all add: mbind_get_self mbind_log returned_mbind state_mbind effects_mbind
      cancel_all_orders_returned cancel_all_orders_state cancel_all_orders_no_orders
      create_proposal_state create_proposal_no_orders adjust_proposal_to_budget_state
      place_orders_effects [THEN arg_cong, of returned] place_orders_state place_orders_submits
      set_create_timestamp_sel get_self_def)

lemma host_balanced_fields:
  "connectors host_balanced ''binance_paper_trade'' = Some balanced_connector"
  "candles_df_with_features host_balanced = Inr candles_with_natr"
  by (simp_all add: host_balanced_def host_ready_def)

lemma candles_with_natr_facts:
  "\<not> df_empty candles_with_natr"
  "map_of (columns candles_with_natr) ''NATR_30'' = Some [0.003, 0.002]"
  by (simp_all add: candles_with_natr_def df_empty_def)

section \<open>Claims\<close>

text \<open>
  C1. Whenever the candles frame is not empty and the connector lookup and the balance and
  price reads succeed, \<open>calculate_spreads\<close> computes with the volatility it read (the last
  value of the NATR column, or 0.001 without that column) and the inventory ratio of the
  balances it read. For every such volatility of at least 0, inventory ratio between 0 and 1
  and positive \<open>min_spread\<close> it returns exactly the pair of the specification's algorithm, and
  at an inventory ratio of exactly one half both spreads are \<open>max(min_spread, volatility * 5)\<close>.
  In double arithmetic too, lines 104 to 117 and the specification's algorithm give the same
  pair.
\<close>

theorem calculate_spreads_follows_reference:
  assumes "candles_df_with_features h = Inr df" and "\<not> df_empty df"
    and "(map_of (columns df) (''NATR_'' @ str_nat (candles_length s)) = Some series
            \<and> series \<noteq> [] \<and> volatility = last series)
         \<or> (map_of (columns df) (''NATR_'' @ str_nat (candles_length s)) = None
            \<and> volatility = 0.001)"
    and "connectors h (exchange s) = Some c"
    and "split_sep CHR ''-'' (trading_pair s) = base_asset # quote_asset # rest"
    and "get_balance c base_asset = Inr base_balance"
    and "get_price_by_type c (trading_pair s) (price_source s) = Inr mid"
    and "get_balance c quote_asset = Inr quote_amount"
    and "inventory_ratio =
           (if base_balance + mid * quote_amount > 0
            then base_balance / (base_balance + mid * quote_amount) else 0.5)"
    and "0 \<le> volatility" and "0 \<le> inventory_ratio" and "inventory_ratio \<le> 1"
    and "0 < min_spread s"
  shows "returned (calculate_spreads h s) =
           Inr (reference_spreads (min_spread s) volatility inventory_ratio)
       \<and> (inventory_ratio = 1 / 2 \<longrightarrow>
            returned (calculate_spreads h s) =
              Inr (max (min_spread s) (volatility * 5), max (min_spread s) (volatility * 5)))
       \<and> (\<forall>m v r. spread_formula_double m v r = reference_spreads_double m v r)"
proof -
  have ratio: "inventory_ratio = inventory_ratio_of base_balance (mid * quote_amount)"
    using assms(9) by (simp add: inventory_ratio_of_def Let_def)
  have "returned (calculate_spreads h s) =
          Inr (spread_formula (min_spread s) volatility inventory_ratio)"
    using assms(3)
  proof
    assume "map_of (columns df) (''NATR_'' @ str_nat (candles_length s)) = Some series
            \<and> series \<noteq> [] \<and> volatility = last series"
    then have col: "map_of (columns df) (''NATR_'' @ str_nat (candles_length s)) = Some series"
      and ne: "series \<noteq> []" and v: "volatility = last series"
      by simp_all
    from calculate_spreads_with_volatility [OF assms(1,2) col ne assms(4-8)]
    show ?thesis by (simp add: ratio v)
  next
    assume "map_of (columns df) (''NATR_'' @ str_nat (candles_length s)) = None
            \<and> volatility = 0.001"
    then have col: "map_of (columns df) (''NATR_'' @ str_nat (candles_length s)) = None"
      and v: "volatility = 0.001"
      by simp_all
    from calculate_spreads_without_column [OF assms(1,2) col assms(4-8)]
    show ?thesis by (simp only: ratio v result.simps)
  qed
  then have main: "returned (calculate_spreads h s) =
           Inr (reference_spreads (min_spread s) volatility inventory_ratio)"
    by (simp add: spread_formula_reference)
  have neutral: "inventory_ratio = 1 / 2 \<longrightarrow>
            returned (calculate_spreads h s) =
              Inr (max (min_spread s) (volatility * 5), max (min_spread s) (volatility * 5))"
  proof
    assume "inventory_ratio = 1 / 2"
    with main spread_formula_neutral [of "min_spread s" volatility]
    show "returned (calculate_spreads h s) =
              Inr (max (min_spread s) (volatility * 5), max (min_spread s) (volatility * 5))"
      by (simp only: spread_formula_reference)
  qed
  from main neutral spread_formula_double_reference show ?thesis by blast
qed

theorem calculate_spreads_follows_reference_witness:
  "returned (calculate_spreads host_ready AdaptiveMarketMaker) =
     Inr (reference_spreads 0.001 0.002 0.7)
   \<and> reference_spreads 0.001 0.002 0.7 = (0.009, 0.011)
   \<and> last [0.003, 0.002] = (0.002::real)
   \<and> (if (7::real) + 1 * 3 > 0 then 7 / (7 + 1 * 3) else 0.5) = (0.7::real)
   \<and> returned (calculate_spreads host_balanced AdaptiveMarketMaker) =
     Inr (max 0.001 (0.002 * 5), max 0.001 (0.002 * 5))
   \<and> (if (3::real) + 1 * 3 > 0 then 3 / (3 + 1 * 3) else 0.5) = (1 / 2 :: real)
   \<and> max 0.001 (0.002 * 5) = (0.01::real)
   \<and> (0::real) \<le> 0.002 \<and> (0::real) \<le> 0.7 \<and> (0.7::real) \<le> 1
   \<and> 0 < min_spread AdaptiveMarketMaker"
proof -
  have frame: "candles_df_with_features host_ready = Inr candles_with_natr"
    "candles_df_with_features host_balanced = Inr candles_with_natr"
    by (simp_all add: host_ready_fields host_balanced_fields)
  have nonempty: "\<not> df_empty candles_with_natr"
    by (rule candles_with_natr_facts)
  have col: "(map_of (columns candles_with_natr)
        (''NATR_'' @ str_nat (candles_length AdaptiveMarketMaker)) = Some [0.003, 0.002]
      \<and> [0.003, 0.002 :: real] \<noteq> [] \<and> (0.002::real) = last [0.003, 0.002])
      \<or> (map_of (columns candles_with_natr)
        (''NATR_'' @ str_nat (candles_length AdaptiveMarketMaker)) = None
      \<and> (0.002::real) = 0.001)"
    by (simp add: class_fields str_nat_30 candles_with_natr_facts)
  have conn: "connectors host_ready (exchange AdaptiveMarketMaker) = Some paper_connector"
    "connectors host_balanced (exchange AdaptiveMarketMaker) = Some balanced_connector"
    by (simp_all add: class_fields host_ready_fields host_balanced_fields)
  have pair: "split_sep CHR ''-'' (trading_pair AdaptiveMarketMaker) = ''SOL'' # ''USDT'' # []"
    by (simp add: split_class)
  have skewed: "get_balance paper_connector ''SOL'' = Inr 7"
    "get_price_by_type paper_connector (trading_pair AdaptiveMarketMaker)
       (price_source AdaptiveMarketMaker) = Inr 1"
    "get_balance paper_connector ''USDT'' = Inr 3"
    by (simp_all add: paper_connector_def)
  have balanced: "get_balance balanced_connector ''SOL'' = Inr 3"
    "get_price_by_type balanced_connector (trading_pair AdaptiveMarketMaker)
       (price_source AdaptiveMarketMaker) = Inr 1"
    "get_balance balanced_connector ''USDT'' = Inr 3"
    by (simp_all add: balanced_connector_def paper_connector_def)
  have r1: "(0.7::real) = (if (7::real) + 1 * 3 > 0 then 7 / (7 + 1 * 3) else 0.5)"
    and r2: "(1 / 2 :: real) = (if (3::real) + 1 * 3 > 0 then 3 / (3 + 1 * 3) else 0.5)"
    by simp_all
  have ranges: "(0::real) \<le> 0.002" "(0::real) \<le> 0.7" "(0.7::real) \<le> 1"
    "(0::real) \<le> 1 / 2" "(1 / 2 :: real) \<le> 1" "0 < min_spread AdaptiveMarketMaker"
    by (simp_all add: class_fields)
  from calculate_spreads_follows_reference [OF frame(1) nonempty col conn(1) pair skewed r1
      ranges(1,2,3,6)]
  have a: "returned (calculate_spreads host_ready AdaptiveMarketMaker) =
     Inr (reference_spreads (min_spread AdaptiveMarketMaker) 0.002 0.7)"
    by blast
  from calculate_spreads_follows_reference [OF frame(2) nonempty col conn(2) pair balanced r2
      ranges(1,4,5,6)]
  have b: "returned (calculate_spreads host_balanced AdaptiveMarketMaker) =
     Inr (max (min_spread AdaptiveMarketMaker) (0.002 * 5),
          max (min_spread AdaptiveMarketMaker) (0.002 * 5))"
    by blast
  from a have a': "returned (calculate_spreads host_ready AdaptiveMarketMaker) =
     Inr (reference_spreads 0.001 0.002 0.7)"
    by (simp add: class_fields)
  from a' have c: "reference_spreads 0.001 0.002 0.7 = (0.009, 0.011)"
    by (simp add: calculate_spreads_host_ready)
  from b have b': "returned (calculate_spreads host_balanced AdaptiveMarketMaker) =
     Inr (max 0.001 (0.002 * 5), max 0.001 (0.002 * 5))"
    by (simp add: class_fields)
  have misc: "last [0.003, 0.002] = (0.002::real)" "max 0.001 (0.002 * 5) = (0.01::real)"
    by simp_all
  from a' c misc(1) r1 [symmetric] b' r2 [symmetric] misc(2) ranges(1,2,3,6)
  show ?thesis by blast
qed

text \<open>
  C2. For every volatility of at least 0 and inventory ratio between 0 and 1, both spreads of
  the spread computation are at least \<open>min_spread\<close>; so is the pair that \<open>calculate_spreads\<close>
  returns whenever it logs calculated spreads, that is, on its path without fallback.
\<close>

theorem calculate_spreads_floor:
  assumes "0 \<le> volatility" and "0 \<le> inventory_ratio" and "inventory_ratio \<le> 1"
  shows "m \<le> fst (spread_formula m volatility inventory_ratio)
       \<and> m \<le> snd (spread_formula m volatility inventory_ratio)
       \<and> (\<forall>h self b a.
            min_spread self = m \<and>
            effects (calculate_spreads h self) =
              [Log INFO (Calculated_spreads b a volatility inventory_ratio)] \<longrightarrow>
            returned (calculate_spreads h self) = Inr (b, a) \<and> m \<le> b \<and> m \<le> a)"
proof (intro conjI allI impI)
  show "m \<le> fst (spread_formula m volatility inventory_ratio)"
    and "m \<le> snd (spread_formula m volatility inventory_ratio)"
    using spread_formula_ge [of m volatility inventory_ratio] by simp_all
next
  fix h self b a
  assume "min_spread self = m \<and>
    effects (calculate_spreads h self) =
      [Log INFO (Calculated_spreads b a volatility inventory_ratio)]"
  then have m: "min_spread self = m"
    and "effects (calculate_spreads h self) =
      [Log INFO (Calculated_spreads b a volatility inventory_ratio)]"
    by simp_all
  from calculated_log [OF this(2)] m
  have r: "returned (calculate_spreads h self) = Inr (b, a)"
    and f: "(b, a) = spread_formula m volatility inventory_ratio"
    by simp_all
  show "returned (calculate_spreads h self) = Inr (b, a)" by (rule r)
  from spread_formula_ge [of m volatility inventory_ratio] f [symmetric]
  show "m \<le> b" and "m \<le> a" by simp_all
qed

theorem calculate_spreads_floor_witness:
  "(0::real) \<le> 0.001 \<and> (0::real) \<le> 0.7 \<and> (0.7::real) \<le> 1
   \<and> min_spread AdaptiveMarketMaker = 0.001
   \<and> effects (calculate_spreads host_short_history AdaptiveMarketMaker) =
        [Log INFO (Calculated_spreads 0.0045 0.0055 0.001 0.7)]
   \<and> returned (calculate_spreads host_short_history AdaptiveMarketMaker) = Inr (0.0045, 0.0055)
   \<and> (0.001::real) \<le> 0.0045 \<and> (0.001::real) \<le> 0.0055
   \<and> 0.001 \<le> fst (spread_formula 0.001 0.001 0.7)
   \<and> 0.001 \<le> snd (spread_formula 0.001 0.001 0.7)"
proof -
  have log: "effects (calculate_spreads host_short_history AdaptiveMarketMaker) =
        [Log INFO (Calculated_spreads 0.0045 0.0055 0.001 0.7)]"
    by (simp add: calculate_spreads_host_short_history)
  have floor: "min_spread AdaptiveMarketMaker = 0.001"
    by (simp add: class_fields)
  have "0.001 \<le> fst (spread_formula 0.001 0.001 0.7)
       \<and> 0.001 \<le> snd (spread_formula 0.001 0.001 0.7)
       \<and> (\<forall>h self b a.
            min_spread self = 0.001 \<and>
            effects (calculate_spreads h self) =
              [Log INFO (Calculated_spreads b a 0.001 0.7)] \<longrightarrow>
            returned (calculate_spreads h self) = Inr (b, a) \<and> 0.001 \<le> b \<and> 0.001 \<le> a)"
    by (rule calculate_spreads_floor) simp_all
  then have a: "0.001 \<le> fst (spread_formula 0.001 0.001 0.7)"
    and b: "0.001 \<le> snd (spread_formula 0.001 0.001 0.7)"
    and c: "returned (calculate_spreads host_short_history AdaptiveMarketMaker) =
        Inr (0.0045, 0.0055) \<and> (0.001::real) \<le> 0.0045 \<and> (0.001::real) \<le> 0.0055"
    using log floor by blast+
  from a b c log floor show ?thesis by simp
qed

text \<open>
  C3. \<open>calculate_spreads\<close> never raises. When the candles frame is empty, or when any
  statement of its \<open>try\<close> block raises (the candle feed, a connector lookup, a balance or
  price read), it returns the configured pair \<open>(self.bid_spread, self.ask_spread)\<close> and leaves
  the strategy object as it was.
\<close>

theorem calculate_spreads_fallback:
  "(\<exists>p. returned (calculate_spreads h s) = Inr p)
   \<and> (candles_df_with_features h = Inl e' \<longrightarrow>
        returned (calculate_spreads_try h s) = Inl e')
   \<and> ((\<exists>df. candles_df_with_features h = Inr df \<and> df_empty df)
        \<or> (\<exists>e. returned (calculate_spreads_try h s) = Inl e) \<longrightarrow>
        returned (calculate_spreads h s) = Inr (bid_spread s, ask_spread s)
        \<and> state (calculate_spreads h s) = s)"
proof (intro conjI impI)
  show "\<exists>p. returned (calculate_spreads h s) = Inr p"
    by (rule calculate_spreads_returns)
next
  assume "candles_df_with_features h = Inl e'"
  then show "returned (calculate_spreads_try h s) = Inl e'"
    by (rule try_candles_raise)
next
  assume "(\<exists>df. candles_df_with_features h = Inr df \<and> df_empty df)
        \<or> (\<exists>e. returned (calculate_spreads_try h s) = Inl e)"
  then show "returned (calculate_spreads h s) = Inr (bid_spread s, ask_spread s)"
  proof
    assume "\<exists>df. candles_df_with_features h = Inr df \<and> df_empty df"
    then obtain df where "candles_df_with_features h = Inr df" and "df_empty df" by blast
    from calculate_spreads_empty [OF this] show ?thesis by simp
  next
    assume "\<exists>e. returned (calculate_spreads_try h s) = Inl e"
    then obtain e where "returned (calculate_spreads_try h s) = Inl e" ..
    from calculate_spreads_raise [OF this] show ?thesis by simp
  qed
next
  show "state (calculate_spreads h s) = s"
    by (rule calculate_spreads_state)
qed

theorem calculate_spreads_fallback_witness:
  "returned (calculate_spreads_try host_no_order_book AdaptiveMarketMaker) =
     Inl (HostError ''No order book exists'')
   \<and> returned (calculate_spreads host_no_order_book AdaptiveMarketMaker) =
       Inr (bid_spread AdaptiveMarketMaker, ask_spread AdaptiveMarketMaker)
   \<and> (bid_spread AdaptiveMarketMaker, ask_spread AdaptiveMarketMaker) = (0.001, 0.001)
   \<and> state (calculate_spreads host_no_order_book AdaptiveMarketMaker) = AdaptiveMarketMaker"
proof -
  have raised: "returned (calculate_spreads_try host_no_order_book AdaptiveMarketMaker) =
     Inl (HostError ''No order book exists'')"
    by (rule calculate_spreads_try_no_order_book) (simp_all add: class_fields)
  then have "\<exists>e. returned (calculate_spreads_try host_no_order_book AdaptiveMarketMaker) = Inl e"
    by blast
  with calculate_spreads_fallback [of host_no_order_book AdaptiveMarketMaker]
  have "returned (calculate_spreads host_no_order_book AdaptiveMarketMaker) =
       Inr (bid_spread AdaptiveMarketMaker, ask_spread AdaptiveMarketMaker)
     \<and> state (calculate_spreads host_no_order_book AdaptiveMarketMaker) = AdaptiveMarketMaker"
    by blast
  with raised show ?thesis by (simp add: class_fields)
qed

text \<open>
  C4. Given the reference price \<open>P\<close>, the spreads \<open>(b, a)\<close> that \<open>calculate_spreads\<close> returns,
  the best bid \<open>B\<close> and the best ask \<open>A\<close>, \<open>create_proposal\<close> returns a buy order priced at
  \<open>min(P * (1 - b), B)\<close> and a sell order priced at \<open>max(P * (1 + a), A)\<close>. \<open>on_tick\<close> submits
  exactly the candidates the host's budget checker returns for this proposal; the checker
  adjusts amounts and may drop candidates, so each of them is a buy at the proposed buy price
  or a sell at the proposed sell price. Hence every buy order \<open>on_tick\<close> submits is priced
  \<open>min(P * (1 - b), B)\<close>, at most the best bid, and every sell order \<open>max(P * (1 + a), A)\<close>, at
  least the best ask.
\<close>

theorem on_tick_quotes_never_cross:
  assumes "create_timestamp s \<le> current_timestamp h"
    and "connectors h (exchange s) = Some c"
    and "get_price_by_type c (trading_pair s) (price_source s) = Inr P"
    and "returned (calculate_spreads h s) = Inr (b, a)"
    and "get_price c (trading_pair s) False = Inr B"
    and "get_price c (trading_pair s) True = Inr A"
    and "buy = \<lparr> candidate_trading_pair = trading_pair s, is_maker = True, order_type = LIMIT,
                 order_side = BUY, amount = order_amount s, price = min (P * (1 - b)) B \<rparr>"
    and "sell = \<lparr> candidate_trading_pair = trading_pair s, is_maker = True, order_type = LIMIT,
                  order_side = SELL, amount = order_amount s, price = max (P * (1 + a)) A \<rparr>"
    and "adjust_candidates c [buy, sell] = Inr adjusted"
    and "\<forall>candidate \<in> set adjusted.
           (order_side candidate = BUY \<and> price candidate = price buy)
         \<or> (order_side candidate = SELL \<and> price candidate = price sell)"
  shows "returned (create_proposal h s) = Inr [buy, sell]
       \<and> price buy \<le> B \<and> A \<le> price sell
       \<and> returned (on_tick h s) = Inr ()
       \<and> filter is_order (effects (on_tick h s)) = map (order_request (exchange s)) adjusted
       \<and> (\<forall>p \<in> set (buy_prices (effects (on_tick h s))). p = min (P * (1 - b)) B \<and> p \<le> B)
       \<and> (\<forall>p \<in> set (sell_prices (effects (on_tick h s))). p = max (P * (1 + a)) A \<and> A \<le> p)"
proof -
  have proposal: "returned (create_proposal h s) = Inr [buy, sell]"
    using create_proposal_prices [OF assms(2-6)] assms(7,8) by simp
  note submitted = on_tick_submits [OF assms(1) proposal assms(2,9)]
  have buys: "buy_prices (effects (on_tick h s)) =
      map price (filter (\<lambda>x. order_side x \<noteq> SELL) adjusted)"
    using submitted(2) buy_prices_filter [of "effects (on_tick h s)"]
    by (simp add: buy_prices_requests)
  have sells: "sell_prices (effects (on_tick h s)) =
      map price (filter (\<lambda>x. order_side x = SELL) adjusted)"
    using submitted(2) sell_prices_filter [of "effects (on_tick h s)"]
    by (simp add: sell_prices_requests)
  have buy_bound: "\<forall>p \<in> set (buy_prices (effects (on_tick h s))). p = min (P * (1 - b)) B \<and> p \<le> B"
    unfolding buys using assms(10) assms(7) by auto
  have sell_bound: "\<forall>p \<in> set (sell_prices (effects (on_tick h s))). p = max (P * (1 + a)) A \<and> A \<le> p"
    unfolding sells using assms(10) assms(8) by auto
  from proposal submitted buy_bound sell_bound assms(7,8) show ?thesis by simp
qed

theorem on_tick_quotes_never_cross_witness:
  "create_timestamp AdaptiveMarketMaker \<le> current_timestamp host_ready
   \<and> connectors host_ready (exchange AdaptiveMarketMaker) = Some paper_connector
   \<and> get_price_by_type paper_connector (trading_pair AdaptiveMarketMaker)
        (price_source AdaptiveMarketMaker) = Inr 1
   \<and> returned (calculate_spreads host_ready AdaptiveMarketMaker) = Inr (0.009, 0.011)
   \<and> get_price paper_connector (trading_pair AdaptiveMarketMaker) False = Inr 0.99
   \<and> get_price paper_connector (trading_pair AdaptiveMarketMaker) True = Inr 1.0005
   \<and> min (1 * (1 - 0.009)) 0.99 = (0.99::real) \<and> max (1 * (1 + 0.011)) 1.0005 = (1.011::real)
   \<and> returned (create_proposal host_ready AdaptiveMarketMaker) =
        Inr [\<lparr> candidate_trading_pair = ''SOL-USDT'', is_maker = True, order_type = LIMIT,
                order_side = BUY, amount = 1, price = 0.99 \<rparr>,
             \<lparr> candidate_trading_pair = ''SOL-USDT'', is_maker = True, order_type = LIMIT,
                order_side = SELL, amount = 1, price = 1.011 \<rparr>]
   \<and> returned (on_tick host_ready AdaptiveMarketMaker) = Inr ()
   \<and> filter is_order (effects (on_tick host_ready AdaptiveMarketMaker)) =
        [Buy ''binance_paper_trade'' ''SOL-USDT'' 1 LIMIT 0.99,
         Sell ''binance_paper_trade'' ''SOL-USDT'' 1 LIMIT 1.011]
   \<and> buy_prices (effects (on_tick host_ready AdaptiveMarketMaker)) = [0.99]
   \<and> sell_prices (effects (on_tick host_ready AdaptiveMarketMaker)) = [1.011]
   \<and> (0.99::real) \<le> 0.99 \<and> (1.0005::real) \<le> 1.011"
proof -
  let ?buy = "\<lparr> candidate_trading_pair = trading_pair AdaptiveMarketMaker, is_maker = True,
      order_type = LIMIT, order_side = BUY, amount = order_amount AdaptiveMarketMaker,
      price = min (1 * (1 - 0.009)) 0.99 \<rparr>"
  let ?sell = "\<lparr> candidate_trading_pair = trading_pair AdaptiveMarketMaker, is_maker = True,
      order_type = LIMIT, order_side = SELL, amount = order_amount AdaptiveMarketMaker,
      price = max (1 * (1 + 0.011)) 1.0005 \<rparr>"
  have 1: "create_timestamp AdaptiveMarketMaker \<le> current_timestamp host_ready"
    by (simp add: class_fields host_ready_fields)
  have 2: "connectors host_ready (exchange AdaptiveMarketMaker) = Some paper_connector"
    by (simp add: class_fields host_ready_fields)
  have 3: "get_price_by_type paper_connector (trading_pair AdaptiveMarketMaker)
        (price_source AdaptiveMarketMaker) = Inr 1"
    by (simp add: paper_connector_def)
  have 4: "returned (calculate_spreads host_ready AdaptiveMarketMaker) = Inr (0.009, 0.011)"
    by (simp add: calculate_spreads_host_ready)
  have 5: "get_price paper_connector (trading_pair AdaptiveMarketMaker) False = Inr 0.99"
    by (simp add: paper_connector_def)
  have 6: "get_price paper_connector (trading_pair AdaptiveMarketMaker) True = Inr 1.0005"
    by (simp add: paper_connector_def)
  have 9: "adjust_candidates paper_connector [?buy, ?sell] = Inr [?buy, ?sell]"
    by (simp add: paper_connector_def)
  have 10: "\<forall>candidate \<in> set [?buy, ?sell].
           (order_side candidate = BUY \<and> price candidate = price ?buy)
         \<or> (order_side candidate = SELL \<and> price candidate = price ?sell)"
    by simp
  note cross = on_tick_quotes_never_cross [OF 1 2 3 4 5 6 refl refl 9 10]
  have prices: "min (1 * (1 - 0.009)) 0.99 = (0.99::real)"
    "max (1 * (1 + 0.011)) 1.0005 = (1.011::real)"
    by simp_all
  have proposal: "returned (create_proposal host_ready AdaptiveMarketMaker) =
        Inr [\<lparr> candidate_trading_pair = ''SOL-USDT'', is_maker = True, order_type = LIMIT,
                order_side = BUY, amount = 1, price = 0.99 \<rparr>,
             \<lparr> candidate_trading_pair = ''SOL-USDT'', is_maker = True, order_type = LIMIT,
                order_side = SELL, amount = 1, price = 1.011 \<rparr>]"
    using cross by (simp add: class_fields)
  have done_tick: "returned (on_tick host_ready AdaptiveMarketMaker) = Inr ()"
    using cross by simp
  have orders: "filter is_order (effects (on_tick host_ready AdaptiveMarketMaker)) =
        [Buy ''binance_paper_trade'' ''SOL-USDT'' 1 LIMIT 0.99,
         Sell ''binance_paper_trade'' ''SOL-USDT'' 1 LIMIT 1.011]"
    using cross by (simp add: class_fields order_request_def)
  have buys: "buy_prices (effects (on_tick host_ready AdaptiveMarketMaker)) = [0.99]"
    and sells: "sell_prices (effects (on_tick host_ready AdaptiveMarketMaker)) = [1.011]"
    using orders buy_prices_filter [of "effects (on_tick host_ready AdaptiveMarketMaker)"]
      sell_prices_filter [of "effects (on_tick host_ready AdaptiveMarketMaker)"]
    by simp_all
  have bounds: "(0.99::real) \<le> 0.99 \<and> (1.0005::real) \<le> 1.011" by simp
  from 1 2 3 4 5 6 prices proposal done_tick orders buys sells bounds show ?thesis
    by blast
qed

text \<open>
  C5. For a fixed volatility of at least 0 and a positive minimum spread, as the inventory
  ratio grows from one half upwards the ask spread does not decrease and the bid spread does
  not increase. The floor does not disturb this, so no restriction to the unclamped region is
  needed.
\<close>

theorem spreads_monotone_above_target:
  assumes "0 \<le> volatility" and "0 < m" and "1 / 2 \<le> r1" and "r1 \<le> r2" and "r2 \<le> 1"
  shows "snd (spread_formula m volatility r1) \<le> snd (spread_formula m volatility r2)
       \<and> fst (spread_formula m volatility r2) \<le> fst (spread_formula m volatility r1)"
  using assms(1-4) by (rule spread_formula_mono)

theorem spreads_monotone_above_target_witness:
  "(0::real) \<le> 0.002 \<and> (0::real) < 0.001 \<and> (1 / 2 :: real) \<le> 0.6 \<and> (0.6::real) \<le> 0.7
   \<and> (0.7::real) \<le> 1
   \<and> snd (spread_formula 0.001 0.002 0.6) \<le> snd (spread_formula 0.001 0.002 0.7)
   \<and> fst (spread_formula 0.001 0.002 0.7) \<le> fst (spread_formula 0.001 0.002 0.6)
   \<and> spread_formula 0.001 0.002 0.6 = (0.0095, 0.0105)
   \<and> spread_formula 0.001 0.002 0.7 = (0.009, 0.011)"
proof -
  have "snd (spread_formula 0.001 0.002 0.6) \<le> snd (spread_formula 0.001 0.002 0.7)
      \<and> fst (spread_formula 0.001 0.002 0.7) \<le> fst (spread_formula 0.001 0.002 0.6)"
    by (rule spreads_monotone_above_target) simp_all
  moreover have "spread_formula 0.001 0.002 0.6 = (0.0095, 0.0105)"
    by (simp add: spread_formula_def py_max_def Let_def)
  moreover have "spread_formula 0.001 0.002 0.7 = (0.009, 0.011)"
    by (simp add: spread_formula_def py_max_def Let_def)
  ultimately show ?thesis by simp
qed




text \<open>
  C7. \<open>risk_aversion\<close> is never read by \<open>calculate_spreads\<close>: two calls on strategy objects
  that differ only in \<open>risk_aversion\<close>, with the same host, return the same pair and have the
  same effects.
\<close>

theorem risk_aversion_is_dead:
  "returned (calculate_spreads h (s\<lparr>risk_aversion := x\<rparr>)) =
     returned (calculate_spreads h (s\<lparr>risk_aversion := y\<rparr>))
   \<and> effects (calculate_spreads h (s\<lparr>risk_aversion := x\<rparr>)) =
     effects (calculate_spreads h (s\<lparr>risk_aversion := y\<rparr>))"
  by (simp add: calculate_spreads_risk)

text \<open>
  C8. The claim as stated fails: a non-empty frame without the NATR column does not rule out
  the fallback, because a later read of the same \<open>try\<close> block can raise. Here the frame has
  rows and no \<open>NATR_30\<close> column, the connector has no order book yet, and the configured
  defaults are returned with an error log.
\<close>

theorem missing_column_can_still_fall_back:
  "candles_df_with_features host_no_order_book = Inr candles_without_natr
   \<and> \<not> df_empty candles_without_natr
   \<and> map_of (columns candles_without_natr) ''NATR_30'' = None
   \<and> returned (calculate_spreads host_no_order_book AdaptiveMarketMaker) =
       Inr (bid_spread AdaptiveMarketMaker, ask_spread AdaptiveMarketMaker)
   \<and> effects (calculate_spreads host_no_order_book AdaptiveMarketMaker) =
       [Log ERROR (Error_calculating_spreads (HostError ''No order book exists''))]"
  by (simp add: host_no_order_book_fields candles_without_natr_facts
      calculate_spreads_host_no_order_book class_fields)

text \<open>
  C8, amended. For every non-empty candles frame without the column \<open>NATR_30\<close>, the missing
  column alone does not trigger the fallback: \<open>calculate_spreads\<close> takes 0.001 as volatility
  and, when the connector lookup and the balance and price reads succeed, returns the spread
  computation on that value and logs calculated spreads. With the class attributes as
  configured, that pair differs from the default pair.
\<close>

theorem missing_column_uses_fixed_volatility:
  assumes "candles_df_with_features h = Inr df" and "\<not> df_empty df"
    and "candles_length s = 30"
    and "map_of (columns df) ''NATR_30'' = None"
    and "connectors h (exchange s) = Some c"
    and "split_sep CHR ''-'' (trading_pair s) = base_asset # quote_asset # rest"
    and "get_balance c base_asset = Inr base_balance"
    and "get_price_by_type c (trading_pair s) (price_source s) = Inr mid"
    and "get_balance c quote_asset = Inr quote_amount"
  shows "returned (calculate_spreads h s) =
           Inr (spread_formula (min_spread s) 0.001
                  (inventory_ratio_of base_balance (mid * quote_amount)))
       \<and> (\<exists>b a. effects (calculate_spreads h s) =
             [Log INFO (Calculated_spreads b a 0.001
                (inventory_ratio_of base_balance (mid * quote_amount)))])
       \<and> (min_spread s = 0.001 \<and> bid_spread s = 0.001 \<and> ask_spread s = 0.001 \<longrightarrow>
            returned (calculate_spreads h s) \<noteq> Inr (bid_spread s, ask_spread s))"
proof -
  have col: "map_of (columns df) (''NATR_'' @ str_nat (candles_length s)) = None"
    using assms(3,4) by (simp add: str_nat_30)
  note eq = calculate_spreads_without_column [OF assms(1,2) col assms(5-9)]
  show ?thesis
  proof (intro conjI impI)
    show "returned (calculate_spreads h s) =
           Inr (spread_formula (min_spread s) 0.001
                  (inventory_ratio_of base_balance (mid * quote_amount)))"
      by (simp add: eq)
    show "\<exists>b a. effects (calculate_spreads h s) =
             [Log INFO (Calculated_spreads b a 0.001
                (inventory_ratio_of base_balance (mid * quote_amount)))]"
      by (simp add: eq)
  next
    assume "min_spread s = 0.001 \<and> bid_spread s = 0.001 \<and> ask_spread s = 0.001"
    then have cfg: "min_spread s = 1 / 1000" "bid_spread s = 1 / 1000" "ask_spread s = 1 / 1000"
      by simp_all
    show "returned (calculate_spreads h s) \<noteq> Inr (bid_spread s, ask_spread s)"
      using spread_formula_fixed_volatility_above_floor
        [of "inventory_ratio_of base_balance (mid * quote_amount)"]
      by (simp add: eq cfg)
  qed
qed

theorem missing_column_uses_fixed_volatility_witness:
  "candles_df_with_features host_short_history = Inr candles_without_natr
   \<and> \<not> df_empty candles_without_natr
   \<and> candles_length AdaptiveMarketMaker = 30
   \<and> map_of (columns candles_without_natr) ''NATR_30'' = None
   \<and> connectors host_short_history (exchange AdaptiveMarketMaker) = Some paper_connector
   \<and> split_sep CHR ''-'' (trading_pair AdaptiveMarketMaker) = [''SOL'', ''USDT'']
   \<and> get_balance paper_connector ''SOL'' = Inr 7
   \<and> get_price_by_type paper_connector (trading_pair AdaptiveMarketMaker)
        (price_source AdaptiveMarketMaker) = Inr 1
   \<and> get_balance paper_connector ''USDT'' = Inr 3
   \<and> min_spread AdaptiveMarketMaker = 0.001 \<and> bid_spread AdaptiveMarketMaker = 0.001
   \<and> ask_spread AdaptiveMarketMaker = 0.001
   \<and> returned (calculate_spreads host_short_history AdaptiveMarketMaker) =
        Inr (spread_formula 0.001 0.001 (inventory_ratio_of 7 (1 * 3)))
   \<and> spread_formula 0.001 0.001 (inventory_ratio_of 7 (1 * 3)) = (0.0045, 0.0055)
   \<and> returned (calculate_spreads host_short_history AdaptiveMarketMaker) \<noteq>
        Inr (bid_spread AdaptiveMarketMaker, ask_spread AdaptiveMarketMaker)"
proof -
  have 1: "candles_df_with_features host_short_history = Inr candles_without_natr"
    by (simp add: host_short_history_fields)
  have 2: "\<not> df_empty candles_without_natr"
    and 4: "map_of (columns candles_without_natr) ''NATR_30'' = None"
    by (simp_all add: candles_without_natr_facts)
  have 3: "candles_length AdaptiveMarketMaker = 30" by (simp add: class_fields)
  have 5: "connectors host_short_history (exchange AdaptiveMarketMaker) = Some paper_connector"
    by (simp add: class_fields host_short_history_fields)
  have 6: "split_sep CHR ''-'' (trading_pair AdaptiveMarketMaker) = ''SOL'' # ''USDT'' # []"
    by (simp add: split_class)
  have 7: "get_balance paper_connector ''SOL'' = Inr 7"
    and 8: "get_price_by_type paper_connector (trading_pair AdaptiveMarketMaker)
        (price_source AdaptiveMarketMaker) = Inr 1"
    and 9: "get_balance paper_connector ''USDT'' = Inr 3"
    by (simp_all add: paper_connector_def)
  have cfg: "min_spread AdaptiveMarketMaker = 0.001 \<and> bid_spread AdaptiveMarketMaker = 0.001
      \<and> ask_spread AdaptiveMarketMaker = 0.001"
    by (simp add: class_fields)
  from missing_column_uses_fixed_volatility [OF 1 2 3 4 5 6 7 8 9] cfg
  have a0: "returned (calculate_spreads host_short_history AdaptiveMarketMaker) =
        Inr (spread_formula (min_spread AdaptiveMarketMaker) 0.001
               (inventory_ratio_of 7 (1 * 3)))"
    and b: "returned (calculate_spreads host_short_history AdaptiveMarketMaker) \<noteq>
        Inr (bid_spread AdaptiveMarketMaker, ask_spread AdaptiveMarketMaker)"
    by blast+
  from a0 have a: "returned (calculate_spreads host_short_history AdaptiveMarketMaker) =
        Inr (spread_formula 0.001 0.001 (inventory_ratio_of 7 (1 * 3)))"
    by (simp add: class_fields)
  have c: "spread_formula 0.001 0.001 (inventory_ratio_of 7 (1 * 3)) = (0.0045, 0.0055)"
    unfolding inventory_ratio_example by (simp add: spread_formula_short_history)
  from 1 2 3 4 5 6 7 8 9 cfg a b c show ?thesis by simp
qed

text \<open>
  C9. \<open>calculate_spreads\<close> leaves the strategy object exactly as it found it, so
  \<open>bid_spread\<close>, \<open>ask_spread\<close>, \<open>min_spread\<close> and \<open>create_timestamp\<close> are unchanged by every
  call. Every strategy object reachable from the class attributes by ticks and calls of
  \<open>calculate_spreads\<close> still has the configured spreads 0.001, and on it the error fallback
  returns exactly \<open>(0.001, 0.001)\<close>.
\<close>

theorem calculate_spreads_frame:
  "state (calculate_spreads h s) = s
   \<and> bid_spread (state (calculate_spreads h s)) = bid_spread s
   \<and> ask_spread (state (calculate_spreads h s)) = ask_spread s
   \<and> min_spread (state (calculate_spreads h s)) = min_spread s
   \<and> create_timestamp (state (calculate_spreads h s)) = create_timestamp s
   \<and> (reachable s \<longrightarrow>
        bid_spread s = 0.001 \<and> ask_spread s = 0.001 \<and> min_spread s = 0.001
        \<and> ((\<exists>e. returned (calculate_spreads_try h s) = Inl e) \<longrightarrow>
             returned (calculate_spreads h s) = Inr (0.001, 0.001)))"
proof (intro conjI impI)
  assume r: "reachable s"
  from reachable_class_spreads [OF r]
  show "bid_spread s = 0.001" and "ask_spread s = 0.001" and "min_spread s = 0.001"
    by simp_all
  assume "\<exists>e. returned (calculate_spreads_try h s) = Inl e"
  then obtain e where "returned (calculate_spreads_try h s) = Inl e" ..
  from calculate_spreads_raise [OF this] reachable_class_spreads [OF r]
  show "returned (calculate_spreads h s) = Inr (0.001, 0.001)" by simp
qed (simp_all add: calculate_spreads_state)

theorem calculate_spreads_frame_witness:
  "reachable (state (on_tick host_ready AdaptiveMarketMaker))
   \<and> state (on_tick host_ready AdaptiveMarketMaker) =
        AdaptiveMarketMaker\<lparr>create_timestamp := 115\<rparr>
   \<and> returned (calculate_spreads_try host_no_order_book
        (state (on_tick host_ready AdaptiveMarketMaker))) =
        Inl (HostError ''No order book exists'')
   \<and> returned (calculate_spreads host_no_order_book
        (state (on_tick host_ready AdaptiveMarketMaker))) = Inr (0.001, 0.001)
   \<and> state (calculate_spreads host_no_order_book
        (state (on_tick host_ready AdaptiveMarketMaker))) =
        AdaptiveMarketMaker\<lparr>create_timestamp := 115\<rparr>"
proof -
  let ?s = "state (on_tick host_ready AdaptiveMarketMaker)"
  have r: "reachable ?s" by (rule reachable.tick) (rule reachable.initial)
  have s: "?s = AdaptiveMarketMaker\<lparr>create_timestamp := 115\<rparr>"
    by (simp add: on_tick_host_ready)
  have raised: "returned (calculate_spreads_try host_no_order_book ?s) =
      Inl (HostError ''No order book exists'')"
    by (rule calculate_spreads_try_no_order_book) (simp_all add: s class_fields)
  then have ex: "\<exists>e. returned (calculate_spreads_try host_no_order_book ?s) = Inl e" by blast
  from calculate_spreads_frame [of host_no_order_book ?s] r ex
  have "returned (calculate_spreads host_no_order_book ?s) = Inr (0.001, 0.001)"
    and "state (calculate_spreads host_no_order_book ?s) = ?s"
    by blast+
  with r s raised show ?thesis by simp
qed

text \<open>
  C10. The claim as stated fails: a cycle does not always end by setting \<open>create_timestamp\<close>.
  \<open>create_proposal\<close> reads the reference price outside any \<open>try\<close>; when that read raises,
  \<open>on_tick\<close> has already cancelled the active orders, raises, and leaves \<open>create_timestamp\<close>
  at its old value, so the tick one second later cancels again.
\<close>

theorem aborted_cycle_keeps_create_timestamp:
  "create_timestamp AdaptiveMarketMaker \<le> current_timestamp host_no_order_book
   \<and> returned (on_tick host_no_order_book AdaptiveMarketMaker) =
       Inl (HostError ''No order book exists'')
   \<and> effects (on_tick host_no_order_book AdaptiveMarketMaker) =
       [Log INFO Tick_refreshing_orders, Log INFO (Canceling_active_orders 1),
        Cancel ''binance_paper_trade'' ''SOL-USDT'' ''b1'']
   \<and> create_timestamp (state (on_tick host_no_order_book AdaptiveMarketMaker)) = 0
   \<and> current_timestamp host_no_order_book + order_refresh_time AdaptiveMarketMaker = 115
   \<and> effects (run_ticks AdaptiveMarketMaker
         [host_no_order_book, host_no_order_book\<lparr>current_timestamp := 101\<rparr>] ! 1) =
       [Log INFO Tick_refreshing_orders, Log INFO (Canceling_active_orders 1),
        Cancel ''binance_paper_trade'' ''SOL-USDT'' ''b1'']"
proof -
  have first: "on_tick host_no_order_book AdaptiveMarketMaker =
     \<lparr> returned = Inl (HostError ''No order book exists''), state = AdaptiveMarketMaker,
       effects = [Log INFO Tick_refreshing_orders,
                  Log INFO (Canceling_active_orders 1),
                  Cancel ''binance_paper_trade'' ''SOL-USDT'' ''b1''] \<rparr>"
    by (rule on_tick_host_no_order_book)
       (simp_all add: class_fields host_no_order_book_fields)
  have second: "on_tick (host_no_order_book\<lparr>current_timestamp := 101\<rparr>) AdaptiveMarketMaker =
     \<lparr> returned = Inl (HostError ''No order book exists''), state = AdaptiveMarketMaker,
       effects = [Log INFO Tick_refreshing_orders,
                  Log INFO (Canceling_active_orders 1),
                  Cancel ''binance_paper_trade'' ''SOL-USDT'' ''b1''] \<rparr>"
    by (rule on_tick_host_no_order_book) (simp_all add: class_fields)
  show ?thesis
    by (simp add: first second Let_def class_fields host_no_order_book_fields)
qed

text \<open>
  C10, amended. \<open>on_tick\<close> does nothing while \<open>current_timestamp < create_timestamp\<close>: no
  order is cancelled or placed and the strategy object is unchanged; it has effects only when
  \<open>create_timestamp <= current_timestamp\<close>. Every cycle that runs to completion ends by
  setting \<open>create_timestamp\<close> to \<open>order_refresh_time + current_timestamp\<close>; a cycle cut short
  by an exception leaves the strategy object as it was. Hence, with a non-negative
  \<open>order_refresh_time\<close>, in any run of ticks a tick that has effects comes at least
  \<open>order_refresh_time\<close> after every earlier completed cycle.
\<close>

theorem on_tick_refresh_gate:
  "(current_timestamp ha < create_timestamp sa \<longrightarrow>
      on_tick ha sa = \<lparr> returned = Inr (), state = sa, effects = [] \<rparr>)
   \<and> (effects (on_tick hb sb) \<noteq> [] \<longrightarrow> create_timestamp sb \<le> current_timestamp hb)
   \<and> (create_timestamp sc \<le> current_timestamp hc \<and> returned (on_tick hc sc) = Inr () \<longrightarrow>
        state (on_tick hc sc) =
          sc\<lparr>create_timestamp := order_refresh_time sc + current_timestamp hc\<rparr>)
   \<and> (create_timestamp sx \<le> current_timestamp hx \<and> returned (on_tick hx sx) = Inl e \<longrightarrow>
        state (on_tick hx sx) = sx)
   \<and> (0 \<le> order_refresh_time s \<and> i < j \<and> j < length hs
        \<and> returned (run_ticks s hs ! i) = Inr () \<and> effects (run_ticks s hs ! i) \<noteq> []
        \<and> effects (run_ticks s hs ! j) \<noteq> [] \<longrightarrow>
        current_timestamp (hs ! i) + order_refresh_time s \<le> current_timestamp (hs ! j))"
proof (intro conjI impI)
  assume "current_timestamp ha < create_timestamp sa"
  then show "on_tick ha sa = \<lparr> returned = Inr (), state = sa, effects = [] \<rparr>"
    by (rule on_tick_closed)
next
  assume "effects (on_tick hb sb) \<noteq> []"
  then show "create_timestamp sb \<le> current_timestamp hb"
    by (simp add: on_tick_effects_iff)
next
  assume "create_timestamp sc \<le> current_timestamp hc \<and> returned (on_tick hc sc) = Inr ()"
  then have "create_timestamp sc \<le> current_timestamp hc" and r: "returned (on_tick hc sc) = Inr ()"
    by simp_all
  from on_tick_open_state [OF this(1)] r
  show "state (on_tick hc sc) =
          sc\<lparr>create_timestamp := order_refresh_time sc + current_timestamp hc\<rparr>"
    by simp
next
  assume "create_timestamp sx \<le> current_timestamp hx \<and> returned (on_tick hx sx) = Inl e"
  then have "create_timestamp sx \<le> current_timestamp hx" and r: "returned (on_tick hx sx) = Inl e"
    by simp_all
  from on_tick_open_state [OF this(1)] r
  show "state (on_tick hx sx) = sx" by simp
next
  assume "0 \<le> order_refresh_time s \<and> i < j \<and> j < length hs
        \<and> returned (run_ticks s hs ! i) = Inr () \<and> effects (run_ticks s hs ! i) \<noteq> []
        \<and> effects (run_ticks s hs ! j) \<noteq> []"
  then show "current_timestamp (hs ! i) + order_refresh_time s \<le> current_timestamp (hs ! j)"
    using run_ticks_spacing [of s i j hs] by blast
qed

theorem on_tick_refresh_gate_witness:
  "current_timestamp (host_ready\<lparr>current_timestamp := 105\<rparr>)
     < create_timestamp (AdaptiveMarketMaker\<lparr>create_timestamp := 115\<rparr>)
   \<and> on_tick (host_ready\<lparr>current_timestamp := 105\<rparr>)
        (AdaptiveMarketMaker\<lparr>create_timestamp := 115\<rparr>) =
       \<lparr> returned = Inr (), state = AdaptiveMarketMaker\<lparr>create_timestamp := 115\<rparr>,
         effects = [] \<rparr>
   \<and> effects (on_tick host_ready AdaptiveMarketMaker) \<noteq> []
   \<and> create_timestamp AdaptiveMarketMaker \<le> current_timestamp host_ready
   \<and> returned (on_tick host_ready AdaptiveMarketMaker) = Inr ()
   \<and> state (on_tick host_ready AdaptiveMarketMaker) =
       AdaptiveMarketMaker\<lparr>create_timestamp := 115\<rparr>
   \<and> create_timestamp AdaptiveMarketMaker \<le> current_timestamp host_no_order_book
   \<and> returned (on_tick host_no_order_book AdaptiveMarketMaker) =
       Inl (HostError ''No order book exists'')
   \<and> state (on_tick host_no_order_book AdaptiveMarketMaker) = AdaptiveMarketMaker
   \<and> 0 \<le> order_refresh_time AdaptiveMarketMaker \<and> (0::nat) < 2 \<and> 2 < length example_run
   \<and> returned (run_ticks AdaptiveMarketMaker example_run ! 0) = Inr ()
   \<and> effects (run_ticks AdaptiveMarketMaker example_run ! 0) \<noteq> []
   \<and> effects (run_ticks AdaptiveMarketMaker example_run ! 1) = []
   \<and> effects (run_ticks AdaptiveMarketMaker example_run ! 2) \<noteq> []
   \<and> current_timestamp (example_run ! 0) + order_refresh_time AdaptiveMarketMaker
        \<le> current_timestamp (example_run ! 2)"
proof -
  let ?late = "host_ready\<lparr>current_timestamp := 105\<rparr>"
  let ?s1 = "AdaptiveMarketMaker\<lparr>create_timestamp := 115\<rparr>"
  note gate = on_tick_refresh_gate [where ha = ?late and sa = ?s1 and hb = host_ready
      and sb = AdaptiveMarketMaker and hc = host_ready and sc = AdaptiveMarketMaker
      and hx = host_no_order_book and sx = AdaptiveMarketMaker
      and e = "HostError ''No order book exists''" and s = AdaptiveMarketMaker
      and i = 0 and j = 2 and hs = example_run]
  have a: "current_timestamp ?late < create_timestamp ?s1" by simp
  have b: "effects (on_tick host_ready AdaptiveMarketMaker) \<noteq> []"
    and c: "create_timestamp AdaptiveMarketMaker \<le> current_timestamp host_ready"
    and d: "returned (on_tick host_ready AdaptiveMarketMaker) = Inr ()"
    by (simp_all add: on_tick_host_ready class_fields host_ready_fields)
  have e: "create_timestamp AdaptiveMarketMaker \<le> current_timestamp host_no_order_book"
    by (simp add: class_fields host_no_order_book_fields)
  have f: "returned (on_tick host_no_order_book AdaptiveMarketMaker) =
       Inl (HostError ''No order book exists'')"
    by (subst on_tick_host_no_order_book) (simp_all add: class_fields host_no_order_book_fields)
  have g: "0 \<le> order_refresh_time AdaptiveMarketMaker" "(0::nat) < 2" "2 < length example_run"
    by (simp_all add: class_fields example_run_def)
  have open_again: "effects (on_tick (host_ready\<lparr>current_timestamp := 115\<rparr>) ?s1) \<noteq> []"
    by (simp add: on_tick_effects_iff)
  have h: "returned (run_ticks AdaptiveMarketMaker example_run ! 0) = Inr ()"
    "effects (run_ticks AdaptiveMarketMaker example_run ! 0) \<noteq> []"
    "effects (run_ticks AdaptiveMarketMaker example_run ! 1) = []"
    "effects (run_ticks AdaptiveMarketMaker example_run ! 2) \<noteq> []"
    using b d open_again by (simp_all add: run_ticks_example)
  from gate a have closed: "on_tick ?late ?s1 = \<lparr> returned = Inr (), state = ?s1, effects = [] \<rparr>"
    by blast
  from gate c d have completed: "state (on_tick host_ready AdaptiveMarketMaker) =
      AdaptiveMarketMaker\<lparr>create_timestamp :=
        order_refresh_time AdaptiveMarketMaker + current_timestamp host_ready\<rparr>"
    by blast
  from gate e f have aborted: "state (on_tick host_no_order_book AdaptiveMarketMaker) =
      AdaptiveMarketMaker"
    by blast
  from gate g h have spacing: "current_timestamp (example_run ! 0)
      + order_refresh_time AdaptiveMarketMaker \<le> current_timestamp (example_run ! 2)"
    by blast
  from completed have completed': "state (on_tick host_ready AdaptiveMarketMaker) = ?s1"
    by (simp add: class_fields host_ready_fields)
  from a closed b c d completed' e f aborted g h spacing show ?thesis by blast
qed

end
